theory Spec2Isabelle
  imports Complex_Main "HOL-Library.Sublist" "HOL-Library.Log_Nat"
begin

section \<open>Python values and the operations the handlers apply to them\<close>

subsection \<open>Floats\<close>

text \<open>
  A Python float is an IEEE 754 binary64 number: a finite value (\<open>Fin 0\<close> is \<open>0.0\<close>,
  \<open>NegZero\<close> is \<open>-0.0\<close>), an infinity, or NaN. Every arithmetic result is the exact
  result rounded to the nearest double, ties to the even significand.
\<close>

datatype pyfloat = Fin rat | NegZero | PosInf | NegInf | NaN

definition pow2 :: "int \<Rightarrow> rat" where
  "pow2 k = (if 0 \<le> k then 2 ^ nat k else 1 / 2 ^ nat (- k))"

text \<open>The exponent \<open>e\<close> with \<open>2^e \<le> a < 2^(e+1)\<close>, for a positive \<open>a\<close>.\<close>

definition ilog2 :: "rat \<Rightarrow> int" where
  "ilog2 a =
     (if 1 \<le> a then bitlen \<lfloor>a\<rfloor> - 1
      else (let k = bitlen \<lceil>1 / a\<rceil> in if pow2 (1 - k) \<le> a then 1 - k else - k))"

definition round_half_even :: "rat \<Rightarrow> int" where
  "round_half_even r =
     (let f = \<lfloor>r\<rfloor>; d = r - of_int f in
      if d < 1 / 2 then f
      else if 1 / 2 < d then f + 1
      else if even f then f else f + 1)"

text \<open>
  Rounding to a double: 53 significant bits, exponents from -1022 (below that the
  subnormals, multiples of \<open>2^-1074\<close>); a magnitude of \<open>2^1024 - 2^970\<close> or more rounds
  to an infinity, and one that rounds to nothing keeps its sign as a zero.
\<close>

definition round_double :: "rat \<Rightarrow> pyfloat" where
  "round_double x =
     (if x = 0 then Fin 0
      else if 2 ^ 1024 - 2 ^ 970 \<le> \<bar>x\<bar> then (if 0 < x then PosInf else NegInf)
      else
        (let q = max (ilog2 \<bar>x\<bar>) (- 1022) - 52;
             m = round_half_even (\<bar>x\<bar> / pow2 q)
         in if m = 0 then (if 0 < x then Fin 0 else NegZero)
            else Fin (sgn x * of_int m * pow2 q)))"

text \<open>A float literal of the source denotes the double nearest to its decimal value.\<close>

definition fl_lit :: "rat \<Rightarrow> pyfloat" where
  "fl_lit x = round_double x"

fun fin_value :: "pyfloat \<Rightarrow> rat option" where
  "fin_value (Fin x) = Some x"
| "fin_value NegZero = Some 0"
| "fin_value _ = None"

fun is_neg :: "pyfloat \<Rightarrow> bool" where
  "is_neg (Fin x) = (x < 0)"
| "is_neg NegZero = True"
| "is_neg NegInf = True"
| "is_neg _ = False"

definition signed_zero :: "bool \<Rightarrow> pyfloat" where
  "signed_zero neg = (if neg then NegZero else Fin 0)"

definition signed_inf :: "bool \<Rightarrow> pyfloat" where
  "signed_inf neg = (if neg then NegInf else PosInf)"

text \<open>
  Float addition. Opposite infinities give NaN; a zero added to a number is that number
  (\<open>-0.0 + 0.0\<close> is \<open>0.0\<close>); a sum that is exactly zero is \<open>0.0\<close>.
\<close>

definition fadd :: "pyfloat \<Rightarrow> pyfloat \<Rightarrow> pyfloat" where
  "fadd a b =
     (if a = NaN \<or> b = NaN then NaN
      else if a = PosInf then (if b = NegInf then NaN else PosInf)
      else if a = NegInf then (if b = PosInf then NaN else NegInf)
      else if b = PosInf \<or> b = NegInf then b
      else
        (case (a, b) of
           (Fin x, Fin y) \<Rightarrow>
             if x = 0 then b else if y = 0 then a
             else if x + y = 0 then Fin 0 else round_double (x + y)
         | (NegZero, _) \<Rightarrow> b
         | (_, _) \<Rightarrow> a))"

text \<open>
  Float multiplication. The sign of a zero or an infinity is the product of the signs;
  zero times infinity is NaN; a product with 1.0 is the other factor.
\<close>

definition fmul :: "pyfloat \<Rightarrow> pyfloat \<Rightarrow> pyfloat" where
  "fmul a b =
     (if a = NaN \<or> b = NaN then NaN
      else
        (case (fin_value a, fin_value b) of
           (Some x, Some y) \<Rightarrow>
             if x = 0 \<or> y = 0 then signed_zero (is_neg a \<noteq> is_neg b)
             else if x = 1 then b else if y = 1 then a
             else round_double (x * y)
         | (Some x, None) \<Rightarrow>
             if x = 0 then NaN else signed_inf (is_neg a \<noteq> is_neg b)
         | (None, Some y) \<Rightarrow>
             if y = 0 then NaN else signed_inf (is_neg a \<noteq> is_neg b)
         | (None, None) \<Rightarrow> signed_inf (is_neg a \<noteq> is_neg b)))"

subsection \<open>JSON values\<close>

text \<open>
  The demo service (\<^verbatim>\<open>src/app/main.py\<close>) keeps its records as Python dicts built from
  JSON, so the model works on JSON values. \<open>JNull\<close> is Python's \<open>None\<close>, \<open>JInt\<close> an
  unbounded Python int, \<open>JFloat\<close> a Python float, \<open>JObj\<close> a dict given by its key/value
  pairs (looked up with \<open>map_of\<close>).
\<close>

datatype json =
    JNull
  | JBool bool
  | JInt int
  | JFloat pyfloat
  | JStr string
  | JArr "json list"
  | JObj "(string \<times> json) list"

type_synonym pydict = "(string \<times> json) list"

text \<open>The exceptions a handler can raise on the values it is given.\<close>

datatype exn =
    AttributeError
  | TypeError
  | KeyError
  | ZeroDivisionError
  | OverflowError
  | ValueError

definition bindE :: "'e + 'a \<Rightarrow> ('a \<Rightarrow> 'e + 'b) \<Rightarrow> 'e + 'b" where
  "bindE m f = (case m of Inl e \<Rightarrow> Inl e | Inr x \<Rightarrow> f x)"

text \<open>\<open>bool\<close> is a subclass of \<open>int\<close> in Python: \<open>True\<close> counts as 1 in arithmetic.\<close>

fun py_int :: "json \<Rightarrow> int option" where
  "py_int (JBool b) = Some (if b then 1 else 0)"
| "py_int (JInt i) = Some i"
| "py_int _ = None"

text \<open>An int that meets a float is converted to the nearest float first; one that rounds
  to an infinity raises OverflowError.\<close>

definition fl_of_int :: "int \<Rightarrow> exn + pyfloat" where
  "fl_of_int i =
     (case round_double (of_int i) of
        PosInf \<Rightarrow> Inl OverflowError
      | NegInf \<Rightarrow> Inl OverflowError
      | f \<Rightarrow> Inr f)"

text \<open>The operand of a float operation: a float as it is, an int (or bool) converted;
  nothing for a value that is not a number.\<close>

fun py_float :: "json \<Rightarrow> (exn + pyfloat) option" where
  "py_float (JFloat f) = Some (Inr f)"
| "py_float (JInt i) = Some (fl_of_int i)"
| "py_float (JBool b) = Some (fl_of_int (if b then 1 else 0))"
| "py_float _ = None"

text \<open>
  \<open>a * b\<close>: int times int is an int, a product with a float is a float product, a string
  or a list times an int is repeated (no copies for a count below 1); everything else is
  a TypeError.
\<close>

definition py_mul :: "json \<Rightarrow> json \<Rightarrow> exn + json" where
  "py_mul a b =
     (case (py_int a, py_int b) of
        (Some i, Some j) \<Rightarrow> Inr (JInt (i * j))
      | _ \<Rightarrow>
        (case (py_float a, py_float b) of
           (Some fa, Some fb) \<Rightarrow>
             bindE fa (\<lambda>x. bindE fb (\<lambda>y. Inr (JFloat (fmul x y))))
         | _ \<Rightarrow>
           (case (a, py_int b) of
              (JStr s, Some n) \<Rightarrow> Inr (JStr (concat (replicate (nat n) s)))
            | (JArr xs, Some n) \<Rightarrow> Inr (JArr (concat (replicate (nat n) xs)))
            | _ \<Rightarrow>
              (case (py_int a, b) of
                 (Some n, JStr s) \<Rightarrow> Inr (JStr (concat (replicate (nat n) s)))
               | (Some n, JArr xs) \<Rightarrow> Inr (JArr (concat (replicate (nat n) xs)))
               | _ \<Rightarrow> Inl TypeError))))"

text \<open>\<open>a + b\<close>: ints add exactly, a sum with a float is a float sum, strings and lists
  concatenate, everything else is a TypeError.\<close>

definition py_add :: "json \<Rightarrow> json \<Rightarrow> exn + json" where
  "py_add a b =
     (case (py_int a, py_int b) of
        (Some i, Some j) \<Rightarrow> Inr (JInt (i + j))
      | _ \<Rightarrow>
        (case (py_float a, py_float b) of
           (Some fa, Some fb) \<Rightarrow>
             bindE fa (\<lambda>x. bindE fb (\<lambda>y. Inr (JFloat (fadd x y))))
         | _ \<Rightarrow>
           (case (a, b) of
              (JStr s, JStr t) \<Rightarrow> Inr (JStr (s @ t))
            | (JArr xs, JArr ys) \<Rightarrow> Inr (JArr (xs @ ys))
            | _ \<Rightarrow> Inl TypeError)))"

text \<open>
  Float division: a zero divisor raises; otherwise NaN and the infinities behave as in
  IEEE 754, and a quotient by 1.0 is the dividend.
\<close>

definition fdiv :: "pyfloat \<Rightarrow> pyfloat \<Rightarrow> exn + pyfloat" where
  "fdiv a b =
     (if fin_value b = Some 0 then Inl ZeroDivisionError
      else if a = NaN \<or> b = NaN then Inr NaN
      else
        (case (fin_value a, fin_value b) of
           (Some x, Some y) \<Rightarrow>
             if x = 0 then Inr (signed_zero (is_neg a \<noteq> is_neg b))
             else if y = 1 then Inr a
             else Inr (round_double (x / y))
         | (Some x, None) \<Rightarrow> Inr (signed_zero (is_neg a \<noteq> is_neg b))
         | (None, Some y) \<Rightarrow> Inr (signed_inf (is_neg a \<noteq> is_neg b))
         | (None, None) \<Rightarrow> Inr NaN))"

text \<open>True division of two ints: the exact quotient rounded to a float; a zero divisor
  raises, and so does a quotient too large for a float.\<close>

definition int_truediv :: "int \<Rightarrow> int \<Rightarrow> exn + pyfloat" where
  "int_truediv i j =
     (if j = 0 then Inl ZeroDivisionError
      else if i = 0 then Inr (signed_zero (j < 0))
      else
        (case round_double (of_int i / of_int j) of
           PosInf \<Rightarrow> Inl OverflowError
         | NegInf \<Rightarrow> Inl OverflowError
         | f \<Rightarrow> Inr f))"

text \<open>\<open>a / b\<close>: true division of numbers, always a float.\<close>

definition py_truediv :: "json \<Rightarrow> json \<Rightarrow> exn + json" where
  "py_truediv a b =
     (case (py_int a, py_int b) of
        (Some i, Some j) \<Rightarrow> bindE (int_truediv i j) (\<lambda>f. Inr (JFloat f))
      | _ \<Rightarrow>
        (case (py_float a, py_float b) of
           (Some fa, Some fb) \<Rightarrow>
             bindE fa (\<lambda>x. bindE fb (\<lambda>y. bindE (fdiv x y) (\<lambda>f. Inr (JFloat f))))
         | _ \<Rightarrow> Inl TypeError))"

text \<open>\<open>d.get(k, default)\<close> on a dict, and the same call on an arbitrary value: only a dict
  has the method.\<close>

definition dict_get :: "pydict \<Rightarrow> string \<Rightarrow> json \<Rightarrow> json" where
  "dict_get d k dflt = (case map_of d k of None \<Rightarrow> dflt | Some v \<Rightarrow> v)"

fun py_get :: "json \<Rightarrow> string \<Rightarrow> json \<Rightarrow> exn + json" where
  "py_get (JObj d) k dflt = Inr (dict_get d k dflt)"
| "py_get _ k dflt = Inl AttributeError"

text \<open>\<open>d[k]\<close> on a dict.\<close>

definition subscript :: "pydict \<Rightarrow> string \<Rightarrow> exn + json" where
  "subscript d k = (case map_of d k of None \<Rightarrow> Inl KeyError | Some v \<Rightarrow> Inr v)"

text \<open>\<open>for x in v\<close>: a list yields its elements, a dict its keys, a string its characters;
  nothing else is iterable.\<close>

fun py_iter :: "json \<Rightarrow> exn + json list" where
  "py_iter (JArr xs) = Inr xs"
| "py_iter (JObj d) = Inr (map (\<lambda>kv. JStr (fst kv)) d)"
| "py_iter (JStr s) = Inr (map (\<lambda>c. JStr [c]) s)"
| "py_iter _ = Inl TypeError"

subsection \<open>Serialisation\<close>

text \<open>
  \<open>jsonify\<close> writes a value as JSON text. Writing an int of more than 4300 decimal
  digits raises ValueError (the default limit of CPython 3.11 on int to str conversion;
  the parser has the same limit on reading, so a request body never holds such an int,
  but a product or a sum of ints from a body can). Floats, NaN and the infinities
  included, are written.
\<close>

definition int_ok :: "int \<Rightarrow> bool" where
  "int_ok i = (\<bar>i\<bar> < 10 ^ 4300)"

fun json_ok :: "json \<Rightarrow> bool" where
  "json_ok (JInt i) = int_ok i"
| "json_ok (JArr xs) = (\<forall>x\<in>set xs. json_ok x)"
| "json_ok (JObj d) = (\<forall>kv\<in>set d. json_ok (snd kv))"
| "json_ok _ = True"

definition jsonify :: "json \<Rightarrow> exn + json" where
  "jsonify v = (if json_ok v then Inr v else Inl ValueError)"

section \<open>The demo service: state, seed data and request handlers\<close>

record app_state =
  orders :: "pydict list"
  products :: "pydict list"
  customers :: "pydict list"
  purchases :: "pydict list"

definition init_state :: app_state where
  "init_state = \<lparr>
     orders = [
       [(''id'', JStr ''ord_001''),
        (''customer_id'', JStr ''cust_001''),
        (''items'', JArr [
           JObj [(''product_id'', JStr ''prod_001''), (''name'', JStr ''Laptop''),
                 (''quantity'', JInt 1), (''price'', JFloat (fl_lit (99999 / 100)))],
           JObj [(''product_id'', JStr ''prod_002''), (''name'', JStr ''Mouse''),
                 (''quantity'', JInt 2), (''price'', JFloat (fl_lit (2999 / 100)))]]),
        (''total'', JFloat (fl_lit (105997 / 100))),
        (''status'', JStr ''completed''),
        (''created_at'', JStr ''2024-01-15T10:30:00Z'')],
       [(''id'', JStr ''ord_002''),
        (''customer_id'', JStr ''cust_002''),
        (''items'', JArr [
           JObj [(''product_id'', JStr ''prod_003''), (''name'', JStr ''Keyboard''),
                 (''quantity'', JInt 1), (''price'', JFloat (fl_lit (7999 / 100)))]]),
        (''total'', JFloat (fl_lit (7999 / 100))),
        (''status'', JStr ''pending''),
        (''created_at'', JStr ''2024-01-16T14:20:00Z'')]],
     products = [
       [(''id'', JStr ''prod_001''), (''name'', JStr ''Laptop''),
        (''price'', JFloat (fl_lit (99999 / 100))), (''category'', JStr ''Electronics''),
        (''stock'', JInt 50)],
       [(''id'', JStr ''prod_002''), (''name'', JStr ''Mouse''),
        (''price'', JFloat (fl_lit (2999 / 100))), (''category'', JStr ''Electronics''),
        (''stock'', JInt 100)],
       [(''id'', JStr ''prod_003''), (''name'', JStr ''Keyboard''),
        (''price'', JFloat (fl_lit (7999 / 100))), (''category'', JStr ''Electronics''),
        (''stock'', JInt 75)],
       [(''id'', JStr ''prod_004''), (''name'', JStr ''Monitor''),
        (''price'', JFloat (fl_lit (29999 / 100))), (''category'', JStr ''Electronics''),
        (''stock'', JInt 30)]],
     customers = [
       [(''id'', JStr ''cust_001''), (''name'', JStr ''John Doe''),
        (''email'', JStr ''john@example.com''), (''phone'', JStr ''+1-555-0123'')],
       [(''id'', JStr ''cust_002''), (''name'', JStr ''Jane Smith''),
        (''email'', JStr ''jane@example.com''), (''phone'', JStr ''+1-555-0124'')]],
     purchases = [
       [(''id'', JStr ''pur_001''),
        (''order_id'', JStr ''ord_001''),
        (''payment_method'', JStr ''credit_card''),
        (''payment_status'', JStr ''completed''),
        (''amount'', JFloat (fl_lit (105997 / 100))),
        (''transaction_id'', JStr ''txn_abc123''),
        (''processed_at'', JStr ''2024-01-15T10:35:00Z'')]]
   \<rparr>"

text \<open>A response is the HTTP status and the JSON body; \<open>return jsonify(v), status\<close>
  (status 200 when none is given) is a response unless the serialisation raises.\<close>

type_synonym response = "nat \<times> json"

definition respond :: "nat \<Rightarrow> json \<Rightarrow> exn + response" where
  "respond status v = bindE (jsonify v) (\<lambda>body. Inr (status, body))"

text \<open>
  What a request brings from outside the process: the strings \<open>str(uuid.uuid4())\<close> of the
  (at most two) UUIDs a handler draws, and \<open>datetime.utcnow().isoformat()\<close>.
\<close>

record env =
  uuid1 :: string
  uuid2 :: string
  utcnow :: string

definition health_check :: "env \<Rightarrow> exn + response" where
  "health_check e =
     respond 200 (JObj [(''status'', JStr ''healthy''), (''timestamp'', JStr (utcnow e))])"

definition get_orders :: "app_state \<Rightarrow> exn + response" where
  "get_orders s =
     respond 200 (JObj [(''orders'', JArr (map JObj (orders s))),
                        (''count'', JInt (int (length (orders s))))])"

text \<open>\<open>next((o for o in coll if o["id"] == ident), None)\<close>: the first record whose id is the
  string \<open>ident\<close>; a record without the key raises on the way.\<close>

fun next_by_id :: "pydict list \<Rightarrow> string \<Rightarrow> exn + pydict option" where
  "next_by_id [] ident = Inr None"
| "next_by_id (r # rs) ident =
     bindE (subscript r ''id'')
       (\<lambda>v. if v = JStr ident then Inr (Some r) else next_by_id rs ident)"

text \<open>The three lookups differ in the collection and the message only. \<open>if order:\<close> tests
  the dict found for being non-empty.\<close>

definition lookup_by_id :: "pydict list \<Rightarrow> string \<Rightarrow> string \<Rightarrow> exn + response" where
  "lookup_by_id coll ident msg =
     bindE (next_by_id coll ident)
       (\<lambda>found. case found of
            Some r \<Rightarrow> if r \<noteq> [] then respond 200 (JObj r)
                      else respond 404 (JObj [(''error'', JStr msg)])
          | None \<Rightarrow> respond 404 (JObj [(''error'', JStr msg)]))"

definition get_order :: "app_state \<Rightarrow> string \<Rightarrow> exn + response" where
  "get_order s order_id = lookup_by_id (orders s) order_id ''Order not found''"

definition get_product :: "app_state \<Rightarrow> string \<Rightarrow> exn + response" where
  "get_product s product_id = lookup_by_id (products s) product_id ''Product not found''"

definition get_customer :: "app_state \<Rightarrow> string \<Rightarrow> exn + response" where
  "get_customer s customer_id = lookup_by_id (customers s) customer_id ''Customer not found''"

text \<open>\<open>item.get("price", 0) * item.get("quantity", 1)\<close>, the summand of one item.\<close>

definition item_term :: "json \<Rightarrow> exn + json" where
  "item_term item =
     bindE (py_get item ''price'' (JInt 0))
       (\<lambda>p. bindE (py_get item ''quantity'' (JInt 1)) (\<lambda>q. py_mul p q))"

text \<open>\<open>sum(... for item in items)\<close>: the summands are added to the accumulator from the
  left with \<open>+\<close>, starting at the int 0, as CPython 3.11 does; the first exception ends
  the sum.\<close>

fun sum_terms :: "json \<Rightarrow> json list \<Rightarrow> exn + json" where
  "sum_terms acc [] = Inr acc"
| "sum_terms acc (item # rest) =
     bindE (item_term item)
       (\<lambda>t. bindE (py_add acc t) (\<lambda>acc'. sum_terms acc' rest))"

text \<open>The dict \<open>new_order\<close> of \<open>create_order\<close>, its entries evaluated in order.\<close>

definition new_order_of :: "env \<Rightarrow> json \<Rightarrow> exn + pydict" where
  "new_order_of e data =
     bindE (py_get data ''customer_id'' JNull) (\<lambda>customer_id.
     bindE (py_get data ''items'' (JArr [])) (\<lambda>items.
     bindE (py_iter items) (\<lambda>its.
     bindE (sum_terms (JInt 0) its) (\<lambda>total.
       Inr [(''id'', JStr (''ord_'' @ take 8 (uuid1 e))),
            (''customer_id'', customer_id),
            (''items'', items),
            (''total'', total),
            (''status'', JStr ''pending''),
            (''created_at'', JStr (utcnow e @ ''Z''))]))))"

text \<open>
  \<open>create_order\<close> gives the outcome of the call and the state it leaves. An exception
  while \<open>new_order\<close> is built leaves the state as it was; \<open>orders.append(new_order)\<close>
  comes before \<open>jsonify(new_order)\<close>, so when the serialisation raises, the order has been
  stored all the same.
\<close>

definition create_order :: "app_state \<Rightarrow> env \<Rightarrow> json \<Rightarrow> (exn + response) \<times> app_state" where
  "create_order s e data =
     (case new_order_of e data of
        Inl ex \<Rightarrow> (Inl ex, s)
      | Inr new_order \<Rightarrow>
          (respond 201 (JObj new_order), s\<lparr>orders := orders s @ [new_order]\<rparr>))"

text \<open>
  \<open>create_purchase\<close> only copies values of the body into the purchase. The body is the
  value of \<open>request.get_json()\<close>, which holds no int that \<open>jsonify\<close> refuses, so the
  serialisation of the purchase is taken to succeed.
\<close>

definition create_purchase :: "app_state \<Rightarrow> env \<Rightarrow> json \<Rightarrow> exn + response \<times> app_state" where
  "create_purchase s e data =
     bindE (py_get data ''order_id'' JNull) (\<lambda>order_id.
     bindE (py_get data ''payment_method'' (JStr ''credit_card'')) (\<lambda>payment_method.
     bindE (py_get data ''amount'' JNull) (\<lambda>amount.
       let new_purchase =
             [(''id'', JStr (''pur_'' @ take 8 (uuid1 e))),
              (''order_id'', order_id),
              (''payment_method'', payment_method),
              (''payment_status'', JStr ''completed''),
              (''amount'', amount),
              (''transaction_id'', JStr (''txn_'' @ take 8 (uuid2 e))),
              (''processed_at'', JStr (utcnow e @ ''Z''))]
       in Inr ((201, JObj new_purchase), s\<lparr>purchases := purchases s @ [new_purchase]\<rparr>))))"

definition get_purchases :: "app_state \<Rightarrow> exn + response" where
  "get_purchases s =
     respond 200 (JObj [(''purchases'', JArr (map JObj (purchases s))),
                        (''count'', JInt (int (length (purchases s))))])"

definition get_products :: "app_state \<Rightarrow> exn + response" where
  "get_products s =
     respond 200 (JObj [(''products'', JArr (map JObj (products s))),
                        (''count'', JInt (int (length (products s))))])"

definition get_customers :: "app_state \<Rightarrow> exn + response" where
  "get_customers s =
     respond 200 (JObj [(''customers'', JArr (map JObj (customers s))),
                        (''count'', JInt (int (length (customers s))))])"

text \<open>The list comprehension of \<open>get_inventory\<close>.\<close>

fun inventory_of :: "pydict list \<Rightarrow> exn + json list" where
  "inventory_of [] = Inr []"
| "inventory_of (p # ps) =
     bindE (subscript p ''id'') (\<lambda>i.
     bindE (subscript p ''name'') (\<lambda>n.
     bindE (subscript p ''stock'') (\<lambda>st.
     bindE (inventory_of ps) (\<lambda>rest.
       Inr (JObj [(''product_id'', i), (''name'', n), (''stock'', st)] # rest)))))"

definition get_inventory :: "app_state \<Rightarrow> exn + response" where
  "get_inventory s =
     bindE (inventory_of (products s)) (\<lambda>inventory.
       respond 200 (JObj [(''inventory'', JArr inventory),
                          (''total_products'', JInt (int (length inventory)))]))"

text \<open>\<open>sum(order["total"] for order in orders if order["status"] == "completed")\<close>.\<close>

fun sum_completed :: "json \<Rightarrow> pydict list \<Rightarrow> exn + json" where
  "sum_completed acc [] = Inr acc"
| "sum_completed acc (order # rest) =
     bindE (subscript order ''status'') (\<lambda>st.
       if st = JStr ''completed''
       then bindE (subscript order ''total'') (\<lambda>t.
            bindE (py_add acc t) (\<lambda>acc'. sum_completed acc' rest))
       else sum_completed acc rest)"

text \<open>\<open>[o for o in orders if o["status"] == "completed"]\<close>.\<close>

fun completed_of :: "pydict list \<Rightarrow> exn + pydict list" where
  "completed_of [] = Inr []"
| "completed_of (order # rest) =
     bindE (subscript order ''status'') (\<lambda>st.
     bindE (completed_of rest) (\<lambda>cs.
       Inr (if st = JStr ''completed'' then order # cs else cs)))"

definition get_sales_analytics :: "app_state \<Rightarrow> exn + response" where
  "get_sales_analytics s =
     bindE (sum_completed (JInt 0) (orders s)) (\<lambda>total_sales.
     bindE (completed_of (orders s)) (\<lambda>cs.
       let completed_orders = int (length cs) in
       bindE (if completed_orders > 0 then py_truediv total_sales (JInt completed_orders)
              else Inr (JInt 0)) (\<lambda>average.
         respond 200 (JObj [(''total_sales'', total_sales),
                            (''completed_orders'', JInt completed_orders),
                            (''average_order_value'', average)]))))"

subsection \<open>Routing and the decorator\<close>

datatype endpoint =
    GetHealth
  | GetOrders
  | GetOrder string
  | PostOrder
  | PostPurchase
  | GetPurchases
  | GetProducts
  | GetProduct string
  | GetCustomers
  | GetCustomer string
  | GetInventory
  | GetSalesAnalytics

text \<open>A request: the route matched (with its path parameter), the header lookup
  \<open>request.headers.get\<close>, and the value of \<open>request.get_json()\<close>.\<close>

record request =
  endpoint :: endpoint
  headers :: "string \<Rightarrow> string option"
  body :: json

text \<open>The view function of each route: its outcome and the state it leaves. Only the
  two POST handlers touch the state.\<close>

definition view :: "app_state \<Rightarrow> env \<Rightarrow> request \<Rightarrow> (exn + response) \<times> app_state" where
  "view s e req =
     (case endpoint req of
        GetHealth \<Rightarrow> (health_check e, s)
      | GetOrders \<Rightarrow> (get_orders s, s)
      | GetOrder i \<Rightarrow> (get_order s i, s)
      | PostOrder \<Rightarrow> create_order s e (body req)
      | PostPurchase \<Rightarrow>
          (case create_purchase s e (body req) of
             Inl ex \<Rightarrow> (Inl ex, s)
           | Inr (resp, s') \<Rightarrow> (Inr resp, s'))
      | GetPurchases \<Rightarrow> (get_purchases s, s)
      | GetProducts \<Rightarrow> (get_products s, s)
      | GetProduct i \<Rightarrow> (get_product s i, s)
      | GetCustomers \<Rightarrow> (get_customers s, s)
      | GetCustomer i \<Rightarrow> (get_customer s i, s)
      | GetInventory \<Rightarrow> (get_inventory s, s)
      | GetSalesAnalytics \<Rightarrow> (get_sales_analytics s, s))"

text \<open>\<open>a or b\<close> on two header lookups: the first if it is a non-empty string, else the
  second.\<close>

definition py_or :: "string option \<Rightarrow> string option \<Rightarrow> string option" where
  "py_or a b = (case a of Some (c # cs) \<Rightarrow> a | _ \<Rightarrow> b)"

text \<open>
  The decorator: it reads the two headers, writes one line to the log, and calls the
  wrapped view. The result is the log line together with whatever the view returned.
\<close>

definition validate_api_key :: "(request \<Rightarrow> 'a) \<Rightarrow> request \<Rightarrow> string \<times> 'a" where
  "validate_api_key f req =
     (let api_key = py_or (headers req ''X-API-Key'') (headers req ''X-Dummy-Auth'') in
      ((case api_key of
          Some (c # cs) \<Rightarrow> ''Request with API key: '' @ take 10 (c # cs) @ ''...''
        | _ \<Rightarrow> ''Request without API key (public access)''),
       f req))"

text \<open>Every route is registered with the decorator around its view.\<close>

definition serve ::
  "app_state \<Rightarrow> env \<Rightarrow> request \<Rightarrow> string \<times> ((exn + response) \<times> app_state)" where
  "serve s e req = validate_api_key (view s e) req"

text \<open>The state after a request, whether it was answered or raised.\<close>

definition next_state :: "app_state \<Rightarrow> env \<times> request \<Rightarrow> app_state" where
  "next_state s ev = snd (snd (serve s (fst ev) (snd ev)))"

definition run :: "app_state \<Rightarrow> (env \<times> request) list \<Rightarrow> app_state" where
  "run s evs = foldl next_state s evs"

subsection \<open>Vocabulary for stating the properties\<close>

text \<open>The record has the string \<open>ident\<close> under \<open>"id"\<close>; the record has some id.\<close>

definition id_is :: "string \<Rightarrow> pydict \<Rightarrow> bool" where
  "id_is ident r = (map_of r ''id'' = Some (JStr ident))"

definition has_id :: "pydict \<Rightarrow> bool" where
  "has_id r = (map_of r ''id'' \<noteq> None)"

text \<open>A number: an int, a bool or a float.\<close>

definition is_number :: "json \<Rightarrow> bool" where
  "is_number v = (py_float v \<noteq> None)"

definition is_completed :: "pydict \<Rightarrow> bool" where
  "is_completed r = (map_of r ''status'' = Some (JStr ''completed''))"

text \<open>An order of the data model, as far as the analytics read it: it carries a status
  and a numeric total.\<close>

definition order_wf :: "pydict \<Rightarrow> bool" where
  "order_wf r =
     (map_of r ''status'' \<noteq> None
      \<and> (case map_of r ''total'' of None \<Rightarrow> False | Some t \<Rightarrow> is_number t))"

text \<open>Python's \<open>sum\<close> of a list of values onto a start value, and the totals of the
  completed orders of a collection.\<close>

fun py_sum :: "json \<Rightarrow> json list \<Rightarrow> exn + json" where
  "py_sum acc [] = Inr acc"
| "py_sum acc (v # vs) = bindE (py_add acc v) (\<lambda>acc'. py_sum acc' vs)"

definition completed_totals :: "pydict list \<Rightarrow> json list" where
  "completed_totals coll = map (\<lambda>r. dict_get r ''total'' JNull) (filter is_completed coll)"

text \<open>The int an item (any JSON value) holds under a key; an item that gives both an
  integer price and an integer quantity; the product of the two.\<close>

fun int_field :: "string \<Rightarrow> json \<Rightarrow> int option" where
  "int_field k (JObj d) = (case map_of d k of None \<Rightarrow> None | Some v \<Rightarrow> py_int v)"
| "int_field k _ = None"

definition int_priced :: "json \<Rightarrow> bool" where
  "int_priced item = (int_field ''price'' item \<noteq> None \<and> int_field ''quantity'' item \<noteq> None)"

definition line_total :: "json \<Rightarrow> int" where
  "line_total item =
     (case (int_field ''price'' item, int_field ''quantity'' item) of
        (Some p, Some q) \<Rightarrow> p * q
      | _ \<Rightarrow> 0)"

text \<open>A float that is a number: not NaN and not an infinity.\<close>

definition is_finite :: "pyfloat \<Rightarrow> bool" where
  "is_finite f = (fin_value f \<noteq> None)"

text \<open>A sample of what a request draws from outside, and a second one.\<close>

definition demo_env :: env where
  "demo_env = \<lparr>uuid1 = ''3f2b8c1e-7a4d-4e0b-9c55-1d2e3f4a5b6c'',
               uuid2 = ''a91c04d7-52be-4f3a-8e17-0b6c7d8e9f01'',
               utcnow = ''2024-02-01T09:00:00''\<rparr>"

definition demo_env2 :: env where
  "demo_env2 = \<lparr>uuid1 = ''7c4e19aa-0d3f-4b8e-a2c6-5e9f1b2d3c4a'',
                uuid2 = ''e05b7f32-8a1c-4d6e-b3f9-2c7d8a9b0e1f'',
                utcnow = ''2024-02-01T09:05:00''\<rparr>"

text \<open>The request of the testable properties and the order it creates.\<close>

definition demo_body :: json where
  "demo_body = JObj [(''customer_id'', JStr ''cust_001''),
                     (''items'', JArr [JObj [(''price'', JInt 10), (''quantity'', JInt 2)]])]"

definition demo_order :: pydict where
  "demo_order = [(''id'', JStr ''ord_3f2b8c1e''),
                 (''customer_id'', JStr ''cust_001''),
                 (''items'', JArr [JObj [(''price'', JInt 10), (''quantity'', JInt 2)]]),
                 (''total'', JInt 20),
                 (''status'', JStr ''pending''),
                 (''created_at'', JStr ''2024-02-01T09:00:00Z'')]"

text \<open>
  A request whose single item has a price and a quantity of 4300 digits each, the
  largest ints a body can hold, and the order it creates: the total, their product, has
  8599 digits.
\<close>

definition big :: int where
  "big = 10 ^ 4299"

definition big_body :: json where
  "big_body = JObj [(''items'', JArr [JObj [(''price'', JInt big), (''quantity'', JInt big)]])]"

definition big_order :: pydict where
  "big_order = [(''id'', JStr ''ord_7c4e19aa''),
                (''customer_id'', JNull),
                (''items'', JArr [JObj [(''price'', JInt big), (''quantity'', JInt big)]]),
                (''total'', JInt (big * big)),
                (''status'', JStr ''pending''),
                (''created_at'', JStr ''2024-02-01T09:05:00Z'')]"

text \<open>Two orders collections for the analytics: one completed order whose total, a
  401-digit int, is beyond the range of a float; and two completed orders among three.\<close>

definition huge_sale_state :: app_state where
  "huge_sale_state =
     init_state\<lparr>orders := [[(''id'', JStr ''ord_900''),
                             (''total'', JInt (10 ^ 400)),
                             (''status'', JStr ''completed'')]]\<rparr>"

definition two_sales_state :: app_state where
  "two_sales_state =
     init_state\<lparr>orders := [[(''id'', JStr ''ord_901''), (''total'', JInt 20),
                              (''status'', JStr ''completed'')],
                             [(''id'', JStr ''ord_902''), (''total'', JInt 5),
                              (''status'', JStr ''pending'')],
                             [(''id'', JStr ''ord_903''), (''total'', JInt 10),
                              (''status'', JStr ''completed'')]]\<rparr>"

text \<open>A POST /order request with the given body.\<close>

definition post_order :: "json \<Rightarrow> request" where
  "post_order data = \<lparr>endpoint = PostOrder, headers = Map.empty, body = data\<rparr>"

section \<open>The provisioner: polling and the service role\<close>

text \<open>
  \<^verbatim>\<open>src/agentcore-integration/deploy_retail_gateway_boto3.py\<close>. The control plane is
  given from outside: \<open>gw k\<close> is what the \<open>k\<close>-th call of \<open>get_gateway\<close> does, either
  a response with a status or an exception of class \<open>Exception\<close> (raised by the call, or
  by reading \<open>response['status']\<close>), and \<open>lat k\<close> is the number of seconds that call
  takes. The world records the wall clock in whole seconds, read by \<open>time.time()\<close>, and
  counts the calls and the sleeps made.
\<close>

datatype poll = Status string | Raises

record world =
  clock :: int
  calls :: nat
  sleeps :: nat

definition get_gateway :: "(nat \<Rightarrow> poll) \<Rightarrow> (nat \<Rightarrow> nat) \<Rightarrow> world \<Rightarrow> poll \<times> world" where
  "get_gateway gw lat w =
     (gw (calls w), w\<lparr>clock := clock w + int (lat (calls w)), calls := Suc (calls w)\<rparr>)"

definition sleep :: "nat \<Rightarrow> world \<Rightarrow> world" where
  "sleep d w = w\<lparr>clock := clock w + int d, sleeps := Suc (sleeps w)\<rparr>"

function wait_loop ::
  "(nat \<Rightarrow> poll) \<Rightarrow> (nat \<Rightarrow> nat) \<Rightarrow> int \<Rightarrow> int \<Rightarrow> world \<Rightarrow> bool \<times> world" where
  "wait_loop gw lat max_wait_time start_time w =
     (if clock w - start_time < max_wait_time then
        (case get_gateway gw lat w of
           (Status status, w') \<Rightarrow>
             if status = ''READY'' then (True, w')
             else if status = ''FAILED'' then (False, w')
             else wait_loop gw lat max_wait_time start_time (sleep 10 w')
         | (Raises, w') \<Rightarrow> wait_loop gw lat max_wait_time start_time (sleep 10 w'))
      else (False, w))"
  by pat_completeness auto
termination
  by (relation "measure (\<lambda>(gw, lat, max_wait_time, start_time, w).
                   nat (start_time + max_wait_time - clock w))")
     (auto simp: get_gateway_def sleep_def)

declare wait_loop.simps [simp del]

text \<open>\<open>start_time\<close> is the clock on entry; \<open>max_wait_time\<close> defaults to 300 and
  \<open>deploy\<close> calls with the default.\<close>

definition wait_for_gateway_ready ::
  "(nat \<Rightarrow> poll) \<Rightarrow> (nat \<Rightarrow> nat) \<Rightarrow> int \<Rightarrow> world \<Rightarrow> bool \<times> world" where
  "wait_for_gateway_ready gw lat max_wait_time w =
     wait_loop gw lat max_wait_time (clock w) w"

text \<open>A mocked client that reports the given statuses in turn and raises once they are
  used up; a poll that is neither READY nor FAILED; the seconds that the polls \<open>k\<close> to
  \<open>n - 1\<close> take, each with the sleep that follows it.\<close>

definition mock :: "string list \<Rightarrow> nat \<Rightarrow> poll" where
  "mock statuses k = (if k < length statuses then Status (statuses ! k) else Raises)"

definition pending :: "poll \<Rightarrow> bool" where
  "pending p = (p \<noteq> Status ''READY'' \<and> p \<noteq> Status ''FAILED'')"

definition elapsed :: "(nat \<Rightarrow> nat) \<Rightarrow> nat \<Rightarrow> nat \<Rightarrow> int" where
  "elapsed lat k n = (\<Sum>i = k..<n. int (lat i) + 10)"

text \<open>
  The IAM and STS calls of \<open>get_or_create_service_role\<close>, each given by what it returns
  or raises for its arguments (the role or policy name; the documents passed along are
  constants of the source). The function returns the calls it made, in order, and either
  the ARN it returns or the exception that leaves it.
\<close>

datatype aws_error = NoSuchEntityException | EntityAlreadyExistsException | ClientError string

record aws_api =
  get_role :: "string \<Rightarrow> aws_error + string"
  create_role :: "string \<Rightarrow> aws_error + string"
  create_policy :: "string \<Rightarrow> aws_error + string"
  get_caller_identity :: "aws_error + string"
  attach_role_policy :: "string \<Rightarrow> string \<Rightarrow> aws_error + unit"

datatype api_call =
    GetRole string
  | CreateRole string
  | CreatePolicy string
  | GetCallerIdentity
  | AttachRolePolicy string string

text \<open>The tail shared by both ways of getting the policy ARN: attach the policy, then
  \<open>return response['Role']['Arn']\<close> for the response of \<open>create_role\<close>.\<close>

definition attach_and_return ::
  "aws_api \<Rightarrow> api_call list \<Rightarrow> string \<Rightarrow> string \<Rightarrow> string \<Rightarrow> api_call list \<times> (aws_error + string)"
  where
  "attach_and_return aws tr role_name policy_arn role_arn =
     (case attach_role_policy aws role_name policy_arn of
        Inl ex \<Rightarrow> (tr @ [AttachRolePolicy role_name policy_arn], Inl ex)
      | Inr u \<Rightarrow> (tr @ [AttachRolePolicy role_name policy_arn], Inr role_arn))"

definition get_or_create_service_role ::
  "aws_api \<Rightarrow> string \<Rightarrow> api_call list \<times> (aws_error + string)" where
  "get_or_create_service_role aws unique_suffix =
     (let role_name = ''AmazonBedrockAgentCoreGatewayServiceRole-'' @ unique_suffix in
      case get_role aws role_name of
        Inr arn \<Rightarrow> ([GetRole role_name], Inr arn)
      | Inl NoSuchEntityException \<Rightarrow>
          (case create_role aws role_name of
             Inl ex \<Rightarrow> ([GetRole role_name, CreateRole role_name], Inl ex)
           | Inr role_arn \<Rightarrow>
               (let policy_name = ''AgentCoreGatewayPolicy-'' @ unique_suffix;
                    tr = [GetRole role_name, CreateRole role_name, CreatePolicy policy_name]
                in case create_policy aws policy_name of
                     Inr policy_arn \<Rightarrow> attach_and_return aws tr role_name policy_arn role_arn
                   | Inl EntityAlreadyExistsException \<Rightarrow>
                       (case get_caller_identity aws of
                          Inl ex \<Rightarrow> (tr @ [GetCallerIdentity], Inl ex)
                        | Inr account_id \<Rightarrow>
                            attach_and_return aws (tr @ [GetCallerIdentity]) role_name
                              (''arn:aws:iam::'' @ account_id @ '':policy/'' @ policy_name)
                              role_arn)
                   | Inl ex \<Rightarrow> (tr, Inl ex)))
      | Inl ex \<Rightarrow> ([GetRole role_name], Inl ex))"

text \<open>An account in which the role does not exist yet and the policy already does.\<close>

definition demo_aws :: aws_api where
  "demo_aws = \<lparr>
     get_role = (\<lambda>role_name. Inl NoSuchEntityException),
     create_role = (\<lambda>role_name. Inr (''arn:aws:iam::123456789012:role/'' @ role_name)),
     create_policy = (\<lambda>policy_name. Inl EntityAlreadyExistsException),
     get_caller_identity = Inr ''123456789012'',
     attach_role_policy = (\<lambda>role_name policy_arn. Inr ())\<rparr>"

section \<open>Properties of the demo service\<close>

subsection \<open>Sequencing of results\<close>

lemma bindE_Inl [simp]: "bindE (Inl e) f = Inl e"
  by (simp add: bindE_def)

lemma bindE_Inr [simp]: "bindE (Inr x) f = f x"
  by (simp add: bindE_def)

lemma bindE_eq_Inr: "bindE m f = Inr y \<longleftrightarrow> (\<exists>x. m = Inr x \<and> f x = Inr y)"
  by (cases m) simp_all

lemma bindE_eq_Inl: "bindE m f = Inl e \<longleftrightarrow> m = Inl e \<or> (\<exists>x. m = Inr x \<and> f x = Inl e)"
  by (cases m) simp_all

lemma bindE_assoc: "bindE (bindE m f) g = bindE m (\<lambda>x. bindE (f x) g)"
  by (cases m) simp_all

lemma py_get_Inr: "py_get data k d = Inr v \<Longrightarrow> \<exists>kvs. data = JObj kvs"
  by (cases data) simp_all

lemma py_get_not_obj: "\<forall>d. data \<noteq> JObj d \<Longrightarrow> py_get data k dflt = Inl AttributeError"
  by (cases data) simp_all

lemma respond_ok [simp]: "json_ok v \<Longrightarrow> respond status v = Inr (status, v)"
  by (simp add: respond_def jsonify_def)

lemma respond_bad [simp]: "\<not> json_ok v \<Longrightarrow> respond status v = Inl ValueError"
  by (simp add: respond_def jsonify_def)

lemma respond_eq_Inr: "respond status v = Inr resp \<longleftrightarrow> json_ok v \<and> resp = (status, v)"
  by (auto simp: respond_def jsonify_def)

subsection \<open>The products collection is read-only\<close>

lemma create_order_products: "products (snd (create_order s e data)) = products s"
  by (simp add: create_order_def split: sum.splits)

lemma create_purchase_products:
  "create_purchase s e data = Inr (resp, s') \<Longrightarrow> products s' = products s"
  by (auto simp: create_purchase_def bindE_eq_Inr Let_def)

lemma view_products: "products (snd (view s e req)) = products s"
  by (cases "endpoint req")
     (auto simp: view_def create_order_products split: sum.splits
           dest: create_purchase_products)

lemma next_state_products: "products (next_state s ev) = products s"
  by (simp add: next_state_def serve_def validate_api_key_def view_products)

lemma run_products: "products (run s evs) = products s"
  unfolding run_def by (induction evs arbitrary: s) (simp_all add: next_state_products)

text \<open>
  Claim C5. The products collection, every record with its stock field included, is the
  same list before and after any request on any endpoint, hence after any sequence of
  requests; in particular a successful POST /purchase returns a state with the products
  it started from.
\<close>

theorem products_never_mutated:
  "products (next_state s ev) = products s
   \<and> products (run s evs) = products s
   \<and> (case create_purchase s e data of
        Inl ex \<Rightarrow> True
      | Inr (resp, s') \<Rightarrow> products s' = products s)"
  by (auto simp: next_state_products run_products split: sum.splits
           dest: create_purchase_products)

subsection \<open>The decorator\<close>

text \<open>
  Claim C8. On every endpoint, two requests that differ only in the presence or value of
  the X-API-Key and X-Dummy-Auth headers get the same result (status, body and state
  change, or the same exception), and that result is the one of the undecorated view: the
  decorator rejects nothing. Only the log line depends on the headers.
\<close>

theorem validate_api_key_never_rejects:
  "snd (serve s e (req\<lparr>headers := (headers req)(''X-API-Key'' := a, ''X-Dummy-Auth'' := b)\<rparr>))
     = snd (serve s e req)
   \<and> snd (serve s e req) = view s e req"
  by (simp add: serve_def validate_api_key_def view_def split: endpoint.splits)

subsection \<open>Purchases\<close>

text \<open>
  Claim C7. A POST /purchase whose body is a JSON object always succeeds with status 201
  and appends the purchase it returns; that purchase has payment_status "completed"
  whatever the body holds, and payment_method "credit_card" when the body has no
  payment_method key. A body that is not an object raises before anything is created, so
  every purchase created is one of these.
\<close>

theorem create_purchase_defaults:
  "(\<exists>p. create_purchase s e (JObj kvs)
           = Inr ((201, JObj p), s\<lparr>purchases := purchases s @ [p]\<rparr>)
        \<and> map_of p ''payment_status'' = Some (JStr ''completed'')
        \<and> (map_of kvs ''payment_method'' = None
             \<longrightarrow> map_of p ''payment_method'' = Some (JStr ''credit_card'')))
   \<and> (\<forall>data. (\<forall>d. data \<noteq> JObj d) \<longrightarrow> create_purchase s e data = Inl AttributeError)"
  by (simp add: create_purchase_def Let_def dict_get_def py_get_not_obj)

theorem create_purchase_defaults_witness:
  "map_of [(''amount'', JInt 50)] ''payment_method'' = None
   \<and> create_purchase init_state demo_env (JObj [(''amount'', JInt 50)])
     = Inr ((201, JObj [(''id'', JStr ''pur_3f2b8c1e''),
                        (''order_id'', JNull),
                        (''payment_method'', JStr ''credit_card''),
                        (''payment_status'', JStr ''completed''),
                        (''amount'', JInt 50),
                        (''transaction_id'', JStr ''txn_a91c04d7''),
                        (''processed_at'', JStr ''2024-02-01T09:00:00Z'')]),
            init_state\<lparr>purchases := purchases init_state @
                       [[(''id'', JStr ''pur_3f2b8c1e''),
                         (''order_id'', JNull),
                         (''payment_method'', JStr ''credit_card''),
                         (''payment_status'', JStr ''completed''),
                         (''amount'', JInt 50),
                         (''transaction_id'', JStr ''txn_a91c04d7''),
                         (''processed_at'', JStr ''2024-02-01T09:00:00Z'')]]\<rparr>)
   \<and> create_purchase init_state demo_env (JArr []) = Inl AttributeError"
  using create_purchase_defaults [of init_state demo_env "[(''amount'', JInt 50)]"]
  by (simp add: create_purchase_def Let_def dict_get_def demo_env_def)

subsection \<open>Integers that cannot be serialised\<close>

lemma int_ok_big: "int_ok big"
proof -
  have "(0::int) \<le> 10 ^ 4299" by (rule zero_le_power) simp
  then have "\<bar>(10::int) ^ 4299\<bar> = 10 ^ 4299" by (rule abs_of_nonneg)
  moreover have "(10::int) ^ 4299 < 10 ^ 4300"
    by (rule power_strict_increasing) simp_all
  ultimately show ?thesis unfolding int_ok_def big_def by (simp only:)
qed

lemma big_squared_not_ok: "\<not> int_ok (big * big)"
proof -
  have e: "big * big = 10 ^ (4299 + 4299)"
    unfolding big_def by (simp only: power_add)
  have "(0::int) \<le> 10 ^ (4299 + 4299)" by (rule zero_le_power) simp
  then have a: "\<bar>(10::int) ^ (4299 + 4299)\<bar> = 10 ^ (4299 + 4299)" by (rule abs_of_nonneg)
  have "(10::int) ^ 4300 \<le> 10 ^ (4299 + 4299)"
    by (rule power_increasing) simp_all
  then have "\<not> (10::int) ^ (4299 + 4299) < 10 ^ 4300" by (rule leD)
  then show ?thesis unfolding int_ok_def e a .
qed

lemma int_ok_small [simp]: "\<bar>i\<bar> \<le> 1000 \<Longrightarrow> int_ok i"
proof -
  assume "\<bar>i\<bar> \<le> 1000"
  also have "(1000::int) = 10 ^ 3" by simp
  also have "(10::int) ^ 3 < 10 ^ 4300"
    by (rule power_strict_increasing) simp_all
  finally show ?thesis unfolding int_ok_def .
qed

subsection \<open>Lookups by id\<close>

lemma next_by_id_find:
  "list_all has_id coll \<Longrightarrow> next_by_id coll i = Inr (find (id_is i) coll)"
  by (induction coll) (auto simp: subscript_def id_is_def has_id_def)

lemma lookup_by_id_find:
  assumes "list_all has_id coll"
  shows "lookup_by_id coll i msg =
           (case find (id_is i) coll of
              Some r \<Rightarrow> if json_ok (JObj r) then Inr (200, JObj r) else Inl ValueError
            | None \<Rightarrow> Inr (404, JObj [(''error'', JStr msg)]))"
proof (cases "find (id_is i) coll")
  case None
  with assms show ?thesis by (simp add: lookup_by_id_def next_by_id_find)
next
  case (Some r)
  then have "id_is i r" by (auto simp: find_Some_iff)
  then have "r \<noteq> []" by (auto simp: id_is_def)
  with Some assms show ?thesis by (simp add: lookup_by_id_def next_by_id_find)
qed

lemma lookup_by_id_404:
  assumes "list_all has_id coll"
  shows "(\<exists>b. lookup_by_id coll i msg = Inr (404, b)) = (\<forall>r\<in>set coll. \<not> id_is i r)"
proof (cases "find (id_is i) coll")
  case None
  then have "\<forall>r\<in>set coll. \<not> id_is i r" by (simp add: find_None_iff)
  with None show ?thesis by (simp add: lookup_by_id_find [OF assms])
next
  case (Some r)
  then have "r \<in> set coll \<and> id_is i r"
    by (auto simp: find_Some_iff in_set_conv_nth)
  with Some show ?thesis by (auto simp: lookup_by_id_find [OF assms])
qed

lemma create_order_customers: "customers (snd (create_order s e data)) = customers s"
  by (simp add: create_order_def split: sum.splits)

lemma create_purchase_customers:
  "create_purchase s e data = Inr (resp, s') \<Longrightarrow> customers s' = customers s"
  by (auto simp: create_purchase_def bindE_eq_Inr Let_def)

lemma view_customers: "customers (snd (view s e req)) = customers s"
  by (cases "endpoint req")
     (auto simp: view_def create_order_customers split: sum.splits
           dest: create_purchase_customers)

lemma next_state_customers: "customers (next_state s ev) = customers s"
  by (simp add: next_state_def serve_def validate_api_key_def view_customers)

lemma run_customers: "customers (run s evs) = customers s"
  unfolding run_def by (induction evs arbitrary: s) (simp_all add: next_state_customers)

lemma new_order_has_id: "new_order_of e data = Inr r \<Longrightarrow> has_id r"
  by (auto simp: new_order_of_def bindE_eq_Inr has_id_def)

lemma create_order_has_id:
  "list_all has_id (orders s) \<Longrightarrow> list_all has_id (orders (snd (create_order s e data)))"
  by (auto simp: create_order_def split: sum.splits dest: new_order_has_id)

lemma create_purchase_orders:
  "create_purchase s e data = Inr (resp, s') \<Longrightarrow> orders s' = orders s"
  by (auto simp: create_purchase_def bindE_eq_Inr Let_def)

lemma view_has_id:
  "list_all has_id (orders s) \<Longrightarrow> list_all has_id (orders (snd (view s e req)))"
  by (cases "endpoint req")
     (auto simp: view_def create_order_has_id split: sum.splits dest: create_purchase_orders)

lemma next_state_has_id:
  "list_all has_id (orders s) \<Longrightarrow> list_all has_id (orders (next_state s ev))"
  by (simp add: next_state_def serve_def validate_api_key_def view_has_id)

lemma run_has_id:
  "list_all has_id (orders s) \<Longrightarrow> list_all has_id (orders (run s evs))"
  unfolding run_def by (induction evs arbitrary: s) (simp_all add: next_state_has_id)

lemma init_has_id:
  "list_all has_id (orders init_state)" "list_all has_id (products init_state)"
  "list_all has_id (customers init_state)"
  by (simp_all add: init_state_def has_id_def)

lemma init_json_ok:
  "\<forall>r\<in>set (products init_state). json_ok (JObj r)"
  "\<forall>r\<in>set (customers init_state). json_ok (JObj r)"
  by (simp_all add: init_state_def)

lemma find_in_set: "find P xs = Some x \<Longrightarrow> x \<in> set xs"
  by (auto simp: find_Some_iff in_set_conv_nth)

lemma lookup_by_id_seed:
  assumes "list_all has_id coll" "\<forall>r\<in>set coll. json_ok (JObj r)"
  shows "lookup_by_id coll i msg =
           Inr (case find (id_is i) coll of
                  Some r \<Rightarrow> (200, JObj r)
                | None \<Rightarrow> (404, JObj [(''error'', JStr msg)]))"
proof (cases "find (id_is i) coll")
  case None
  then show ?thesis by (simp add: lookup_by_id_find [OF assms(1)])
next
  case (Some r)
  with assms(2) have "json_ok (JObj r)" by (blast dest: find_in_set)
  with Some show ?thesis by (simp add: lookup_by_id_find [OF assms(1)])
qed

lemma post_big_order:
  "run init_state [(demo_env2, post_order big_body)]
     = init_state\<lparr>orders := orders init_state @ [big_order]\<rparr>"
  by (simp add: run_def next_state_def serve_def validate_api_key_def view_def post_order_def
        create_order_def new_order_of_def big_body_def dict_get_def item_term_def
        py_mul_def py_add_def demo_env2_def big_order_def)

text \<open>
  Claim C6, amended. In every state the service can reach from its seed data, each of
  GET /order/{id}, GET /product/{id} and GET /customer/{id} answers with status 404 and
  a body \<open>{"error": ...}\<close> if and only if no record of its collection has the id asked
  for. Otherwise it finds the first record with that id: a product or a customer is
  always returned with status 200, and so is an order unless it holds an int of more than
  4300 digits, in which case the serialisation raises ValueError.
\<close>

theorem lookup_404_iff_missing:
  assumes "s = run init_state evs"
  shows
   "get_order s i =
      (case find (id_is i) (orders s) of
         Some r \<Rightarrow> if json_ok (JObj r) then Inr (200, JObj r) else Inl ValueError
       | None \<Rightarrow> Inr (404, JObj [(''error'', JStr ''Order not found'')]))
    \<and> get_product s i =
      Inr (case find (id_is i) (products s) of
             Some r \<Rightarrow> (200, JObj r)
           | None \<Rightarrow> (404, JObj [(''error'', JStr ''Product not found'')]))
    \<and> get_customer s i =
      Inr (case find (id_is i) (customers s) of
             Some r \<Rightarrow> (200, JObj r)
           | None \<Rightarrow> (404, JObj [(''error'', JStr ''Customer not found'')]))
    \<and> (\<exists>b. get_order s i = Inr (404, b)) = (\<forall>r\<in>set (orders s). \<not> id_is i r)
    \<and> (\<exists>b. get_product s i = Inr (404, b)) = (\<forall>r\<in>set (products s). \<not> id_is i r)
    \<and> (\<exists>b. get_customer s i = Inr (404, b)) = (\<forall>r\<in>set (customers s). \<not> id_is i r)"
proof -
  have o: "list_all has_id (orders s)"
    unfolding assms by (rule run_has_id) (rule init_has_id)
  have p: "list_all has_id (products s)" "\<forall>r\<in>set (products s). json_ok (JObj r)"
    unfolding assms run_products by (rule init_has_id init_json_ok)+
  have c: "list_all has_id (customers s)" "\<forall>r\<in>set (customers s). json_ok (JObj r)"
    unfolding assms run_customers by (rule init_has_id init_json_ok)+
  show ?thesis
    unfolding get_order_def get_product_def get_customer_def
    using lookup_by_id_find [OF o] lookup_by_id_seed [OF p] lookup_by_id_seed [OF c]
      lookup_by_id_404 [OF o] lookup_by_id_404 [OF p(1)] lookup_by_id_404 [OF c(1)]
    by simp
qed

theorem lookup_404_iff_missing_witness:
  "get_order init_state ''unknown_id'' = Inr (404, JObj [(''error'', JStr ''Order not found'')])
   \<and> get_product init_state ''prod_003'' =
       Inr (200, JObj [(''id'', JStr ''prod_003''), (''name'', JStr ''Keyboard''),
        (''price'', JFloat (fl_lit (7999 / 100))), (''category'', JStr ''Electronics''),
        (''stock'', JInt 75)])
   \<and> get_customer init_state ''cust_9'' =
       Inr (404, JObj [(''error'', JStr ''Customer not found'')])
   \<and> get_order (run init_state [(demo_env, post_order demo_body)]) ''ord_3f2b8c1e''
       = Inr (200, JObj demo_order)"
proof -
  have r: "init_state = run init_state []" by (simp add: run_def)
  have d: "run init_state [(demo_env, post_order demo_body)]
             = init_state\<lparr>orders := orders init_state @ [demo_order]\<rparr>"
    by (simp add: run_def next_state_def serve_def validate_api_key_def view_def post_order_def
        create_order_def new_order_of_def demo_body_def dict_get_def item_term_def
        py_mul_def py_add_def demo_env_def demo_order_def)
  show ?thesis
    using lookup_404_iff_missing [OF r, of "''unknown_id''"]
      lookup_404_iff_missing [OF r, of "''prod_003''"]
      lookup_404_iff_missing [OF r, of "''cust_9''"]
      lookup_404_iff_missing [OF refl, of "[(demo_env, post_order demo_body)]" "''ord_3f2b8c1e''"]
    by (simp add: d) (simp add: init_state_def id_is_def demo_order_def)
qed

text \<open>As the claim was stated, with every matching record returned with status 200, it
  fails: a POST /order whose item has a price and a quantity of 4300 digits each stores an
  order that GET /order/{id} finds and cannot serialise.\<close>

theorem oversized_order_lookup_raises:
  "json_ok big_body
   \<and> id_is ''ord_7c4e19aa'' (last (orders (run init_state [(demo_env2, post_order big_body)])))
   \<and> get_order (run init_state [(demo_env2, post_order big_body)]) ''ord_7c4e19aa''
       = Inl ValueError"
proof -
  have "json_ok big_body" by (simp add: big_body_def int_ok_big)
  moreover have "\<not> json_ok (JObj big_order)"
    by (simp add: big_order_def big_squared_not_ok)
  moreover have "id_is ''ord_7c4e19aa'' big_order"
    by (simp add: id_is_def big_order_def)
  moreover have "get_order (init_state\<lparr>orders := orders init_state @ [big_order]\<rparr>)
      ''ord_7c4e19aa'' = respond 200 (JObj big_order)"
    by (simp add: get_order_def lookup_by_id_def init_state_def subscript_def big_order_def)
  ultimately show ?thesis by (simp add: post_big_order)
qed

subsection \<open>Creating orders\<close>

lemma py_mul_ints:
  "py_int p = Some x \<Longrightarrow> py_int q = Some y \<Longrightarrow> py_mul p q = Inr (JInt (x * y))"
  by (simp add: py_mul_def)

lemma py_add_ints:
  "py_int a = Some x \<Longrightarrow> py_int b = Some y \<Longrightarrow> py_add a b = Inr (JInt (x + y))"
  by (simp add: py_add_def)

lemma item_term_int_priced:
  assumes "int_priced item"
  shows "item_term item = Inr (JInt (line_total item))"
proof -
  from assms obtain d where d: "item = JObj d"
    by (cases item) (simp_all add: int_priced_def)
  with assms obtain p q x y where
    "map_of d ''price'' = Some p" "py_int p = Some x"
    "map_of d ''quantity'' = Some q" "py_int q = Some y"
    by (auto simp: int_priced_def split: option.splits)
  with d show ?thesis
    by (simp add: item_term_def dict_get_def line_total_def py_mul_ints)
qed

lemma sum_terms_int_priced:
  "list_all int_priced items \<Longrightarrow>
     sum_terms (JInt a) items = Inr (JInt (a + sum_list (map line_total items)))"
proof (induction items arbitrary: a)
  case Nil
  then show ?case by simp
next
  case (Cons item items)
  then have "item_term item = Inr (JInt (line_total item))" "list_all int_priced items"
    by (simp_all add: item_term_int_priced)
  with Cons.IH [of "a + line_total item"] show ?case
    by (simp add: py_add_ints add.assoc)
qed

lemma create_order_orders: "prefix (orders s) (orders (snd (create_order s e data)))"
  by (simp add: create_order_def split: sum.splits)

lemma view_orders_prefix: "prefix (orders s) (orders (snd (view s e req)))"
  by (cases "endpoint req")
     (auto simp: view_def create_order_orders split: sum.splits dest: create_purchase_orders)

lemma next_state_orders_prefix: "prefix (orders s) (orders (next_state s ev))"
  by (simp add: next_state_def serve_def validate_api_key_def view_orders_prefix)

lemma run_orders_prefix: "prefix (orders s) (orders (run s evs))"
  unfolding run_def
proof (induction evs arbitrary: s)
  case Nil
  show ?case by simp
next
  case (Cons ev evs)
  have "prefix (orders s) (orders (next_state s ev))"
    by (rule next_state_orders_prefix)
  also have "prefix \<dots> (orders (foldl next_state (next_state s ev) evs))"
    by (rule Cons.IH)
  finally show ?case by simp
qed

lemma listed_later:
  assumes "orders s' = pre @ [r]"
  shows "prefix (pre @ [r]) (orders (run s' evs))
       \<and> (\<forall>resp. get_orders (run s' evs) = Inr resp \<longrightarrow>
            (\<exists>listed n. resp = (200, JObj [(''orders'', JArr listed), (''count'', n)])
                       \<and> JObj r \<in> set listed))"
proof -
  have p: "prefix (pre @ [r]) (orders (run s' evs))"
    using run_orders_prefix [of s' evs] assms by simp
  then have "r \<in> set (orders (run s' evs))"
    by (auto simp: prefix_def)
  with p show ?thesis by (auto simp: get_orders_def respond_eq_Inr)
qed

lemma json_ok_dict_get:
  "json_ok (JObj d) \<Longrightarrow> json_ok dflt \<Longrightarrow> json_ok (dict_get d k dflt)"
  by (auto simp: dict_get_def split: option.splits dest!: map_of_SomeD)

lemma json_ok_at: "json_ok (JObj d) \<Longrightarrow> map_of d k = Some v \<Longrightarrow> json_ok v"
  by (auto dest!: map_of_SomeD)

lemma post_demo_order:
  "create_order s demo_env demo_body
     = (respond 201 (JObj demo_order), s\<lparr>orders := orders s @ [demo_order]\<rparr>)"
  by (simp add: create_order_def new_order_of_def demo_body_def dict_get_def item_term_def
        py_mul_def py_add_def demo_env_def demo_order_def)

lemma json_ok_demo_order: "json_ok (JObj demo_order)"
  by (simp add: demo_order_def)

lemma respond_demo_order: "respond 201 (JObj demo_order) = Inr (201, JObj demo_order)"
  by (rule respond_ok) (rule json_ok_demo_order)

text \<open>
  Claim C1, amended. A POST /order whose body has items [{price: 10, quantity: 2}] stores
  an order with total 20 (the number the claim writes 20.0) and status "pending", and
  answers 201 with it. The order stays where it is in the orders collection, and every
  later GET /orders that answers lists it; GET /orders raises instead when some stored
  order cannot be serialised. In general, when every submitted item gives an integer
  price and quantity, the total is the sum of price times quantity over the items (with
  floats each product and each partial sum is rounded to a float, and a number beyond the
  range of a float raises). No later request changes an order: the orders collection only
  ever grows at its end.
\<close>

theorem create_order_total_pending_listed:
  "(map_of kvs ''items'' = Some (JArr [JObj d]) \<and> map_of d ''price'' = Some (JInt 10)
      \<and> map_of d ''quantity'' = Some (JInt 2) \<longrightarrow>
      (\<exists>r. snd (create_order s e (JObj kvs)) = s\<lparr>orders := orders s @ [r]\<rparr>
         \<and> (json_ok (JObj kvs) \<longrightarrow> fst (create_order s e (JObj kvs)) = Inr (201, JObj r))
         \<and> map_of r ''total'' = Some (JInt 20)
         \<and> map_of r ''status'' = Some (JStr ''pending'')
         \<and> (\<forall>evs. prefix (orders s @ [r]) (orders (run (s\<lparr>orders := orders s @ [r]\<rparr>) evs))
              \<and> (\<forall>resp. get_orders (run (s\<lparr>orders := orders s @ [r]\<rparr>) evs) = Inr resp \<longrightarrow>
                    (\<exists>listed n. resp = (200, JObj [(''orders'', JArr listed), (''count'', n)])
                               \<and> JObj r \<in> set listed)))))
   \<and> (map_of kvs ''items'' = Some (JArr items) \<and> list_all int_priced items \<longrightarrow>
      (\<exists>r. snd (create_order s e (JObj kvs)) = s\<lparr>orders := orders s @ [r]\<rparr>
         \<and> map_of r ''total'' = Some (JInt (sum_list (map line_total items)))
         \<and> map_of r ''status'' = Some (JStr ''pending'')))
   \<and> prefix (orders s) (orders (run s evs))"
proof (intro conjI impI)
  assume a: "map_of kvs ''items'' = Some (JArr [JObj d]) \<and> map_of d ''price'' = Some (JInt 10)
      \<and> map_of d ''quantity'' = Some (JInt 2)"
  let ?r = "[(''id'', JStr (''ord_'' @ take 8 (uuid1 e))),
             (''customer_id'', dict_get kvs ''customer_id'' JNull),
             (''items'', JArr [JObj d]),
             (''total'', JInt 20),
             (''status'', JStr ''pending''),
             (''created_at'', JStr (utcnow e @ ''Z''))]"
  let ?s' = "s\<lparr>orders := orders s @ [?r]\<rparr>"
  from a have n: "new_order_of e (JObj kvs) = Inr ?r"
    by (simp add: new_order_of_def dict_get_def item_term_def py_mul_def py_add_def)
  have ok: "json_ok (JObj kvs) \<longrightarrow> json_ok (JObj ?r)"
  proof
    assume k: "json_ok (JObj kvs)"
    from json_ok_at [OF k] a have "json_ok (JArr [JObj d])" by blast
    moreover from json_ok_dict_get [OF k] have "json_ok (dict_get kvs ''customer_id'' JNull)"
      by simp
    ultimately show "json_ok (JObj ?r)" by simp
  qed
  have "orders ?s' = orders s @ [?r]" by simp
  from listed_later [OF this] n ok
  show "\<exists>r. snd (create_order s e (JObj kvs)) = s\<lparr>orders := orders s @ [r]\<rparr>
         \<and> (json_ok (JObj kvs) \<longrightarrow> fst (create_order s e (JObj kvs)) = Inr (201, JObj r))
         \<and> map_of r ''total'' = Some (JInt 20)
         \<and> map_of r ''status'' = Some (JStr ''pending'')
         \<and> (\<forall>evs. prefix (orders s @ [r]) (orders (run (s\<lparr>orders := orders s @ [r]\<rparr>) evs))
              \<and> (\<forall>resp. get_orders (run (s\<lparr>orders := orders s @ [r]\<rparr>) evs) = Inr resp \<longrightarrow>
                    (\<exists>listed n. resp = (200, JObj [(''orders'', JArr listed), (''count'', n)])
                               \<and> JObj r \<in> set listed)))"
    by (intro exI [of _ ?r]) (simp add: create_order_def)
next
  assume a: "map_of kvs ''items'' = Some (JArr items) \<and> list_all int_priced items"
  let ?r = "[(''id'', JStr (''ord_'' @ take 8 (uuid1 e))),
             (''customer_id'', dict_get kvs ''customer_id'' JNull),
             (''items'', JArr items),
             (''total'', JInt (sum_list (map line_total items))),
             (''status'', JStr ''pending''),
             (''created_at'', JStr (utcnow e @ ''Z''))]"
  from a sum_terms_int_priced [of items 0]
  have "new_order_of e (JObj kvs) = Inr ?r"
    by (simp add: new_order_of_def dict_get_def)
  then show "\<exists>r. snd (create_order s e (JObj kvs)) = s\<lparr>orders := orders s @ [r]\<rparr>
         \<and> map_of r ''total'' = Some (JInt (sum_list (map line_total items)))
         \<and> map_of r ''status'' = Some (JStr ''pending'')"
    by (intro exI [of _ ?r]) (simp add: create_order_def)
next
  show "prefix (orders s) (orders (run s evs))"
    by (rule run_orders_prefix)
qed

theorem create_order_total_pending_listed_witness:
  "json_ok demo_body
   \<and> list_all int_priced [JObj [(''price'', JInt 10), (''quantity'', JInt 2)]]
   \<and> create_order init_state demo_env demo_body
     = (Inr (201, JObj demo_order), init_state\<lparr>orders := orders init_state @ [demo_order]\<rparr>)
   \<and> map_of demo_order ''total''
     = Some (JInt (sum_list (map line_total [JObj [(''price'', JInt 10), (''quantity'', JInt 2)]])))
   \<and> get_orders (run (init_state\<lparr>orders := orders init_state @ [demo_order]\<rparr>)
                   [(demo_env, \<lparr>endpoint = PostPurchase, headers = Map.empty,
                                body = JObj [(''amount'', JInt 20)]\<rparr>),
                    (demo_env, \<lparr>endpoint = GetOrder ''ord_3f2b8c1e'', headers = Map.empty,
                                body = JNull\<rparr>)])
       = Inr (200, JObj [(''orders'', JArr (map JObj (orders init_state @ [demo_order]))),
                         (''count'', JInt 3)])"
proof -
  have b: "json_ok demo_body" by (simp add: demo_body_def)
  have p: "list_all int_priced [JObj [(''price'', JInt 10), (''quantity'', JInt 2)]]"
    by (simp add: int_priced_def)
  have l: "sum_list (map line_total [JObj [(''price'', JInt 10), (''quantity'', JInt 2)]]) = 20"
    by (simp add: line_total_def)
  have n: "map_of demo_order ''total'' = Some (JInt 20)"
    by (simp add: demo_order_def)
  have c: "create_order init_state demo_env demo_body
     = (Inr (201, JObj demo_order), init_state\<lparr>orders := orders init_state @ [demo_order]\<rparr>)"
    by (simp add: post_demo_order respond_demo_order)
  have g: "get_orders (run (init_state\<lparr>orders := orders init_state @ [demo_order]\<rparr>)
                   [(demo_env, \<lparr>endpoint = PostPurchase, headers = Map.empty,
                                body = JObj [(''amount'', JInt 20)]\<rparr>),
                    (demo_env, \<lparr>endpoint = GetOrder ''ord_3f2b8c1e'', headers = Map.empty,
                                body = JNull\<rparr>)])
       = Inr (200, JObj [(''orders'', JArr (map JObj (orders init_state @ [demo_order]))),
                         (''count'', JInt 3)])"
    by (simp add: run_def next_state_def serve_def validate_api_key_def view_def
          create_purchase_def dict_get_def get_orders_def Let_def)
       (simp add: init_state_def demo_order_def respond_eq_Inr)
  show ?thesis
    using create_order_total_pending_listed
            [of "[(''customer_id'', JStr ''cust_001''),
                  (''items'', JArr [JObj [(''price'', JInt 10), (''quantity'', JInt 2)]])]"
                "[(''price'', JInt 10), (''quantity'', JInt 2)]"
                init_state demo_env
                "[JObj [(''price'', JInt 10), (''quantity'', JInt 2)]]" "[]"]
          b p l n c g
    by simp
qed

text \<open>As the claim was stated, with the new order in what a subsequent GET /orders
  returns, it fails: once an order with an oversized total is stored, the sample request
  still creates its order, and GET /orders raises.\<close>

theorem listing_raises_after_oversized_order:
  "json_ok big_body \<and> json_ok demo_body
   \<and> run init_state [(demo_env2, post_order big_body), (demo_env, post_order demo_body)]
       = init_state\<lparr>orders := orders init_state @ [big_order, demo_order]\<rparr>
   \<and> map_of demo_order ''total'' = Some (JInt 20)
   \<and> get_orders (run init_state [(demo_env2, post_order big_body),
                                  (demo_env, post_order demo_body)])
       = Inl ValueError"
proof -
  have r: "run init_state [(demo_env2, post_order big_body), (demo_env, post_order demo_body)]
       = init_state\<lparr>orders := orders init_state @ [big_order, demo_order]\<rparr>"
    using post_big_order
    by (simp add: run_def next_state_def serve_def validate_api_key_def view_def
          post_order_def post_demo_order)
  have "\<not> json_ok (JObj big_order)"
    by (simp add: big_order_def big_squared_not_ok)
  then have "get_orders (init_state\<lparr>orders := orders init_state @ [big_order, demo_order]\<rparr>)
       = Inl ValueError"
    by (simp add: get_orders_def)
  with r show ?thesis
    by (simp add: big_body_def int_ok_big demo_body_def demo_order_def)
qed

subsection \<open>Defaults of POST /order\<close>

lemma round_double_zero [simp]: "round_double 0 = Fin 0"
  by (simp add: round_double_def)

lemma fl_of_int_zero [simp]: "fl_of_int 0 = Inr (Fin 0)"
  by (simp add: fl_of_int_def)

lemma round_double_one: "round_double 1 = Fin 1"
  by (simp add: round_double_def ilog2_def round_half_even_def pow2_def Let_def bitlen_def
        compute_floorlog)

lemma fl_of_int_one [simp]: "fl_of_int 1 = Inr (Fin 1)"
  by (simp add: fl_of_int_def round_double_one)

lemma is_finite_simps [simp]:
  "is_finite (Fin x)" "is_finite NegZero"
  "\<not> is_finite PosInf" "\<not> is_finite NegInf" "\<not> is_finite NaN"
  by (simp_all add: is_finite_def)

lemma fmul_one_right: "fmul f (Fin 1) = f"
  by (cases f) (simp_all add: fmul_def signed_zero_def signed_inf_def)

lemma fmul_zero_left:
  "fmul (Fin 0) f = (if is_finite f then signed_zero (is_neg f) else NaN)"
  by (cases f) (simp_all add: fmul_def)

lemma fadd_zero_right: "f \<noteq> NegZero \<Longrightarrow> fadd f (Fin 0) = f"
  by (cases f) (simp_all add: fadd_def)

lemma py_add_int_zero:
  assumes "(\<exists>a. acc = JInt a) \<or> (\<exists>f. acc = JFloat f)" "acc \<noteq> JFloat NegZero"
  shows "py_add acc (JInt 0) = Inr acc"
proof -
  from assms(1) consider a where "acc = JInt a" | f where "acc = JFloat f" by blast
  then show ?thesis
  proof cases
    case 1
    then show ?thesis by (simp add: py_add_def)
  next
    case 2
    with assms(2) have "fadd f (Fin 0) = f" by (simp add: fadd_zero_right)
    with 2 show ?thesis by (simp add: py_add_def)
  qed
qed

lemma py_add_number:
  assumes "(\<exists>a. acc = JInt a) \<or> (\<exists>f. acc = JFloat f)" "py_add acc t = Inr acc'"
  shows "(\<exists>a. acc' = JInt a) \<or> (\<exists>f. acc' = JFloat f)"
  using assms
  by (auto simp: py_add_def bindE_eq_Inr split: option.splits json.splits)

lemma sum_terms_number:
  "(\<exists>a. acc = JInt a) \<or> (\<exists>f. acc = JFloat f) \<Longrightarrow> sum_terms acc its = Inr t
     \<Longrightarrow> (\<exists>a. t = JInt a) \<or> (\<exists>f. t = JFloat f)"
proof (induction its arbitrary: acc)
  case Nil
  then show ?case by simp
next
  case (Cons item its)
  from Cons.prems(2) obtain tm acc' where
    s: "item_term item = Inr tm" "py_add acc tm = Inr acc'" "sum_terms acc' its = Inr t"
    by (auto simp: bindE_eq_Inr)
  from py_add_number [OF Cons.prems(1) s(2)] s(3) show ?case
    by (rule Cons.IH)
qed

lemma sum_terms_append:
  "sum_terms acc (xs @ ys) = bindE (sum_terms acc xs) (\<lambda>a. sum_terms a ys)"
  by (induction xs arbitrary: acc) (simp_all add: bindE_assoc)

lemma item_term_default_price:
  "map_of d ''price'' = None \<Longrightarrow> item_term (JObj d) = item_term (JObj ((''price'', JInt 0) # d))"
  by (simp add: item_term_def dict_get_def)

lemma item_term_default_quantity:
  "map_of d ''quantity'' = None \<Longrightarrow>
     item_term (JObj d) = item_term (JObj ((''quantity'', JInt 1) # d))"
  by (simp add: item_term_def dict_get_def)

lemma item_term_zero_price:
  assumes "map_of d ''price'' = None"
    and "map_of d ''quantity'' = None \<or> (\<exists>n. map_of d ''quantity'' = Some (JInt n))"
  shows "item_term (JObj d) = Inr (JInt 0)"
  using assms by (auto simp: item_term_def dict_get_def py_mul_def)

lemma item_term_zero_price_float:
  assumes "map_of d ''price'' = None" "map_of d ''quantity'' = Some (JFloat f)"
  shows "item_term (JObj d) = Inr (JFloat (if is_finite f then signed_zero (is_neg f) else NaN))"
  using assms by (simp add: item_term_def dict_get_def py_mul_def fmul_zero_left)

lemma item_term_unit_quantity_int:
  assumes "map_of d ''quantity'' = None" "map_of d ''price'' = Some (JInt p)"
  shows "item_term (JObj d) = Inr (JInt p)"
  using assms by (simp add: item_term_def dict_get_def py_mul_def)

lemma item_term_unit_quantity_float:
  assumes "map_of d ''quantity'' = None" "map_of d ''price'' = Some (JFloat f)"
  shows "item_term (JObj d) = Inr (JFloat f)"
  using assms by (simp add: item_term_def dict_get_def py_mul_def fmul_one_right)

lemma unpriced_item_adds_nothing:
  assumes price: "map_of d ''price'' = None"
    and qty: "map_of d ''quantity'' = None \<or> (\<exists>n. map_of d ''quantity'' = Some (JInt n))"
    and acc: "sum_terms (JInt 0) xs \<noteq> Inr (JFloat NegZero)"
  shows "sum_terms (JInt 0) (xs @ JObj d # ys) = sum_terms (JInt 0) (xs @ ys)"
proof (cases "sum_terms (JInt 0) xs")
  case (Inl ex)
  then show ?thesis by (simp add: sum_terms_append)
next
  case (Inr a)
  from sum_terms_number [OF _ Inr] have "(\<exists>i. a = JInt i) \<or> (\<exists>f. a = JFloat f)" by simp
  moreover from acc Inr have "a \<noteq> JFloat NegZero" by simp
  ultimately have "py_add a (JInt 0) = Inr a" by (rule py_add_int_zero)
  with Inr item_term_zero_price [OF price qty] show ?thesis
    by (simp add: sum_terms_append)
qed

text \<open>
  Claim C9, amended. In POST /order an item without a price is summed as if its price
  were 0: with a quantity that is absent or an integer its summand is the int 0, and the
  total of the request is the total without that item; with a quantity that is a finite
  float its summand is a float zero; with a quantity that is an infinity or NaN its
  summand is NaN. An item without a quantity is summed as if its quantity were 1, so its
  summand is its price. A body without an items key stores an order with items [] and
  total 0 and answers 201.
\<close>

theorem create_order_defaults:
  "(map_of d ''price'' = None \<longrightarrow>
      item_term (JObj d) = item_term (JObj ((''price'', JInt 0) # d))
      \<and> (map_of d ''quantity'' = None \<or> (\<exists>n. map_of d ''quantity'' = Some (JInt n)) \<longrightarrow>
            item_term (JObj d) = Inr (JInt 0)
            \<and> (sum_terms (JInt 0) xs \<noteq> Inr (JFloat NegZero) \<longrightarrow>
                 sum_terms (JInt 0) (xs @ JObj d # ys) = sum_terms (JInt 0) (xs @ ys)))
      \<and> (\<forall>f. map_of d ''quantity'' = Some (JFloat f) \<longrightarrow>
            item_term (JObj d)
              = Inr (JFloat (if is_finite f then signed_zero (is_neg f) else NaN))))
   \<and> (map_of d ''quantity'' = None \<longrightarrow>
      item_term (JObj d) = item_term (JObj ((''quantity'', JInt 1) # d))
      \<and> (\<forall>p. map_of d ''price'' = Some (JInt p) \<longrightarrow> item_term (JObj d) = Inr (JInt p))
      \<and> (\<forall>f. map_of d ''price'' = Some (JFloat f) \<longrightarrow> item_term (JObj d) = Inr (JFloat f)))
   \<and> (map_of kvs ''items'' = None \<longrightarrow>
      (let r = [(''id'', JStr (''ord_'' @ take 8 (uuid1 e))),
                (''customer_id'', dict_get kvs ''customer_id'' JNull),
                (''items'', JArr []),
                (''total'', JInt 0),
                (''status'', JStr ''pending''),
                (''created_at'', JStr (utcnow e @ ''Z''))]
       in snd (create_order s e (JObj kvs)) = s\<lparr>orders := orders s @ [r]\<rparr>
          \<and> (json_ok (JObj kvs) \<longrightarrow> fst (create_order s e (JObj kvs)) = Inr (201, JObj r))))"
proof (intro conjI impI allI)
  assume i: "map_of kvs ''items'' = None"
  let ?r = "[(''id'', JStr (''ord_'' @ take 8 (uuid1 e))),
             (''customer_id'', dict_get kvs ''customer_id'' JNull),
             (''items'', JArr []),
             (''total'', JInt 0),
             (''status'', JStr ''pending''),
             (''created_at'', JStr (utcnow e @ ''Z''))]"
  from i have n: "new_order_of e (JObj kvs) = Inr ?r"
    by (simp add: new_order_of_def dict_get_def)
  have ok: "json_ok (JObj kvs) \<longrightarrow> json_ok (JObj ?r)"
  proof
    assume k: "json_ok (JObj kvs)"
    from json_ok_dict_get [OF k] have "json_ok (dict_get kvs ''customer_id'' JNull)" by simp
    then show "json_ok (JObj ?r)" by simp
  qed
  from n ok show "let r = ?r
       in snd (create_order s e (JObj kvs)) = s\<lparr>orders := orders s @ [r]\<rparr>
          \<and> (json_ok (JObj kvs) \<longrightarrow> fst (create_order s e (JObj kvs)) = Inr (201, JObj r))"
    by (simp add: create_order_def Let_def)
qed (auto intro: item_term_default_price item_term_default_quantity item_term_zero_price
       item_term_unit_quantity_int item_term_unit_quantity_float
       unpriced_item_adds_nothing simp: item_term_zero_price_float simp del: json_ok.simps)

theorem create_order_defaults_witness:
  "map_of [(''quantity'', JInt 3)] ''price'' = None
   \<and> sum_terms (JInt 0) [JObj [(''price'', JInt 5), (''quantity'', JInt 2)]] = Inr (JInt 10)
   \<and> sum_terms (JInt 0)
        ([JObj [(''price'', JInt 5), (''quantity'', JInt 2)]]
         @ JObj [(''quantity'', JInt 3)] # [JObj [(''price'', JInt 7)]]) = Inr (JInt 17)
   \<and> sum_terms (JInt 0)
        ([JObj [(''price'', JInt 5), (''quantity'', JInt 2)]] @ [JObj [(''price'', JInt 7)]])
       = Inr (JInt 17)
   \<and> item_term (JObj [(''quantity'', JFloat (Fin (5 / 2)))]) = Inr (JFloat (Fin 0))
   \<and> map_of [(''price'', JInt 7)] ''quantity'' = None
   \<and> item_term (JObj [(''price'', JInt 7)]) = Inr (JInt 7)
   \<and> item_term (JObj [(''price'', JFloat (fl_lit (2999 / 100)))])
       = Inr (JFloat (fl_lit (2999 / 100)))
   \<and> map_of [(''customer_id'', JStr ''cust_002'')] ''items'' = None
   \<and> json_ok (JObj [(''customer_id'', JStr ''cust_002'')])
   \<and> create_order init_state demo_env (JObj [(''customer_id'', JStr ''cust_002'')]) =
       (Inr (201, JObj [(''id'', JStr ''ord_3f2b8c1e''),
                        (''customer_id'', JStr ''cust_002''),
                        (''items'', JArr []),
                        (''total'', JInt 0),
                        (''status'', JStr ''pending''),
                        (''created_at'', JStr ''2024-02-01T09:00:00Z'')]),
        init_state\<lparr>orders := orders init_state @
                   [[(''id'', JStr ''ord_3f2b8c1e''),
                     (''customer_id'', JStr ''cust_002''),
                     (''items'', JArr []),
                     (''total'', JInt 0),
                     (''status'', JStr ''pending''),
                     (''created_at'', JStr ''2024-02-01T09:00:00Z'')]]\<rparr>)"
  using create_order_defaults
          [of "[(''quantity'', JInt 3)]" "[JObj [(''price'', JInt 5), (''quantity'', JInt 2)]]"
              "[JObj [(''price'', JInt 7)]]" "[(''customer_id'', JStr ''cust_002'')]"
              demo_env init_state]
        create_order_defaults
          [of "[(''price'', JInt 7)]" "[]" "[]" "[]" demo_env init_state]
        create_order_defaults
          [of "[(''quantity'', JFloat (Fin (5 / 2)))]" "[]" "[]" "[]" demo_env init_state]
        create_order_defaults
          [of "[(''price'', JFloat (fl_lit (2999 / 100)))]" "[]" "[]" "[]" demo_env init_state]
  by (simp add: item_term_def dict_get_def py_mul_def py_add_def demo_env_def
        create_order_def new_order_of_def Let_def signed_zero_def fmul_zero_left
        fmul_one_right)

text \<open>As the claim was stated, for every item without a price, it fails: the quantity
  1e400 is read as infinity, the summand 0 * inf is NaN, and the request answers 201 with
  total NaN, where the request without the item has total 0.\<close>

theorem unpriced_item_with_infinite_quantity:
  "fl_lit (10 ^ 400) = PosInf
   \<and> map_of [(''quantity'', JFloat PosInf)] ''price'' = None
   \<and> item_term (JObj [(''quantity'', JFloat PosInf)]) = Inr (JFloat NaN)
   \<and> fst (create_order init_state demo_env
             (JObj [(''items'', JArr [JObj [(''quantity'', JFloat PosInf)]])]))
       = Inr (201, JObj [(''id'', JStr ''ord_3f2b8c1e''),
                         (''customer_id'', JNull),
                         (''items'', JArr [JObj [(''quantity'', JFloat PosInf)]]),
                         (''total'', JFloat NaN),
                         (''status'', JStr ''pending''),
                         (''created_at'', JStr ''2024-02-01T09:00:00Z'')])
   \<and> sum_terms (JInt 0) [] = Inr (JInt 0)"
proof -
  have "fl_lit (10 ^ 400) = PosInf"
    by (simp add: fl_lit_def round_double_def)
  moreover have "item_term (JObj [(''quantity'', JFloat PosInf)]) = Inr (JFloat NaN)"
    by (simp add: item_term_def dict_get_def py_mul_def fmul_def)
  ultimately show ?thesis
    by (simp add: create_order_def new_order_of_def dict_get_def py_add_def fadd_def
          demo_env_def)
qed

subsection \<open>Sales analytics\<close>

lemma round_half_even_ge: "\<lfloor>r\<rfloor> \<le> round_half_even r"
  by (simp add: round_half_even_def Let_def)

lemma pow2_pos [simp]: "0 < pow2 k"
  by (simp add: pow2_def)

lemma pow2_nonzero [simp]: "pow2 k \<noteq> 0"
  by (simp add: pow2_def)

lemma pow2_le_of_ge_one:
  assumes "1 \<le> x"
  shows "pow2 (ilog2 x - 52) \<le> x"
proof -
  from assms have f: "0 < \<lfloor>x\<rfloor>" by simp
  have e: "ilog2 x = bitlen \<lfloor>x\<rfloor> - 1" using assms by (simp add: ilog2_def)
  from bitlen_bounds [OF f] have b: "2 ^ nat (bitlen \<lfloor>x\<rfloor> - 1) \<le> \<lfloor>x\<rfloor>" by simp
  show ?thesis
  proof (cases "0 \<le> ilog2 x - 52")
    case True
    have "(2::int) ^ nat (ilog2 x - 52) \<le> 2 ^ nat (bitlen \<lfloor>x\<rfloor> - 1)"
      using e by (intro power_increasing) simp_all
    then have "(2::int) ^ nat (ilog2 x - 52) \<le> \<lfloor>x\<rfloor>"
      using b by (rule order_trans)
    then have "rat_of_int (2 ^ nat (ilog2 x - 52)) \<le> x" by (simp add: le_floor_iff)
    with True show ?thesis by (simp add: pow2_def)
  next
    case False
    from False have "pow2 (ilog2 x - 52) = 1 / 2 ^ nat (- (ilog2 x - 52))"
      by (simp add: pow2_def)
    also have "\<dots> \<le> 1" by simp
    also have "1 \<le> x" by fact
    finally show ?thesis .
  qed
qed

lemma round_double_ge_one:
  assumes "1 \<le> x"
  shows "fin_value (round_double x) \<noteq> Some 0"
proof (cases "2 ^ 1024 - 2 ^ 970 \<le> \<bar>x\<bar>")
  case True
  with assms show ?thesis by (simp add: round_double_def)
next
  case False
  let ?q = "max (ilog2 x) (- 1022) - 52"
  let ?m = "round_half_even (x / pow2 ?q)"
  from assms have a: "\<bar>x\<bar> = x" by simp
  from assms have fl: "0 < \<lfloor>x\<rfloor>" by simp
  have "0 < bitlen \<lfloor>x\<rfloor>"
  proof (rule ccontr)
    assume "\<not> 0 < bitlen \<lfloor>x\<rfloor>"
    then have "nat (bitlen \<lfloor>x\<rfloor>) = 0" by simp
    with bitlen_bounds [OF fl] have "\<lfloor>x\<rfloor> < 1" by simp
    with fl show False by simp
  qed
  with assms have "0 \<le> ilog2 x" by (simp add: ilog2_def)
  then have q: "?q = ilog2 x - 52" by simp
  from pow2_le_of_ge_one [OF assms] have "1 \<le> x / pow2 (ilog2 x - 52)"
    by (simp add: le_divide_eq)
  then have "1 \<le> \<lfloor>x / pow2 (ilog2 x - 52)\<rfloor>" by simp
  then have "1 \<le> round_half_even (x / pow2 (ilog2 x - 52))"
    using round_half_even_ge by (rule order_trans)
  then have m: "0 < ?m"
    unfolding q by simp
  from assms have "sgn x = 1" by simp
  with m False assms have "round_double x = Fin (of_int ?m * pow2 ?q)"
    unfolding round_double_def a by (simp add: Let_def)
  moreover from m have "rat_of_int ?m * pow2 ?q \<noteq> 0"
    by simp
  ultimately show ?thesis by (simp only: fin_value.simps option.inject) blast
qed

lemma fl_of_int_pos:
  assumes "0 < n" "fl_of_int n = Inr y"
  shows "fin_value y \<noteq> Some 0"
proof -
  from assms(2) have "y = round_double (rat_of_int n)"
    by (auto simp: fl_of_int_def split: pyfloat.splits)
  moreover from assms(1) have "1 \<le> rat_of_int n" by simp
  ultimately show ?thesis by (simp add: round_double_ge_one)
qed

lemma fdiv_not_zde: "fin_value y \<noteq> Some 0 \<Longrightarrow> fdiv x y \<noteq> Inl ZeroDivisionError"
  by (auto simp: fdiv_def split: option.splits)

lemma int_truediv_not_zde: "j \<noteq> 0 \<Longrightarrow> int_truediv i j \<noteq> Inl ZeroDivisionError"
  by (auto simp: int_truediv_def split: pyfloat.splits)

lemma fl_of_int_not_zde: "fl_of_int i \<noteq> Inl ZeroDivisionError"
  by (auto simp: fl_of_int_def split: pyfloat.splits)

lemma py_float_not_zde: "py_float v = Some m \<Longrightarrow> m \<noteq> Inl ZeroDivisionError"
  by (cases v) (auto simp: fl_of_int_not_zde)

lemma py_truediv_count_not_zde:
  assumes "0 < n"
  shows "py_truediv t (JInt n) \<noteq> Inl ZeroDivisionError"
proof (cases "py_int t")
  case (Some i)
  with assms int_truediv_not_zde [of n i] show ?thesis
    by (auto simp: py_truediv_def bindE_eq_Inl)
next
  case None
  show ?thesis
  proof (cases "py_float t")
    case None
    with \<open>py_int t = None\<close> show ?thesis by (simp add: py_truediv_def)
  next
    case (Some m)
    with \<open>py_int t = None\<close> assms py_float_not_zde [OF Some] show ?thesis
      by (auto simp: py_truediv_def bindE_eq_Inl fl_of_int_not_zde
               dest!: fl_of_int_pos fdiv_not_zde)
  qed
qed

lemma py_add_not_zde: "py_add a b \<noteq> Inl ZeroDivisionError"
  by (auto simp: py_add_def bindE_eq_Inl fl_of_int_not_zde split: option.splits json.splits
           dest: py_float_not_zde)

lemma subscript_not_zde: "subscript d k \<noteq> Inl ZeroDivisionError"
  by (simp add: subscript_def split: option.splits)

lemma sum_completed_not_zde: "sum_completed acc os \<noteq> Inl ZeroDivisionError"
  by (induction os arbitrary: acc)
     (auto simp: bindE_eq_Inl subscript_not_zde py_add_not_zde)

lemma completed_of_not_zde: "completed_of os \<noteq> Inl ZeroDivisionError"
  by (induction os) (auto simp: bindE_eq_Inl subscript_not_zde)

lemma respond_not_zde: "respond st v \<noteq> Inl ZeroDivisionError"
  by (simp add: respond_def jsonify_def)

lemma get_sales_analytics_not_zde: "get_sales_analytics s \<noteq> Inl ZeroDivisionError"
  by (auto simp: get_sales_analytics_def bindE_eq_Inl Let_def sum_completed_not_zde
        completed_of_not_zde py_truediv_count_not_zde respond_not_zde split: if_splits)

lemma completed_of_filter:
  "list_all order_wf os \<Longrightarrow> completed_of os = Inr (filter is_completed os)"
  by (induction os) (auto simp: order_wf_def is_completed_def subscript_def)

lemma sum_completed_py_sum:
  "list_all order_wf os \<Longrightarrow> sum_completed acc os = py_sum acc (completed_totals os)"
proof (induction os arbitrary: acc)
  case Nil
  show ?case by (simp add: completed_totals_def)
next
  case (Cons r os)
  from Cons.prems have wfr: "order_wf r" and wf: "list_all order_wf os" by simp_all
  from wfr obtain st t where st: "map_of r ''status'' = Some st"
    and t: "map_of r ''total'' = Some t"
    by (auto simp: order_wf_def split: option.splits)
  show ?case
  proof (cases "st = JStr ''completed''")
    case True
    with st have "is_completed r" by (simp add: is_completed_def)
    then have "completed_totals (r # os) = t # completed_totals os"
      using t by (simp add: completed_totals_def dict_get_def)
    with st t True Cons.IH [OF wf] show ?thesis by (simp add: subscript_def)
  next
    case False
    with st have "\<not> is_completed r" by (simp add: is_completed_def)
    then have "completed_totals (r # os) = completed_totals os"
      by (simp add: completed_totals_def)
    with st False Cons.IH [OF wf] show ?thesis by (simp add: subscript_def)
  qed
qed

lemma completed_totals_num:
  "list_all order_wf os \<Longrightarrow> list_all is_number (completed_totals os)"
  by (induction os)
     (auto simp: completed_totals_def order_wf_def dict_get_def split: option.splits)

lemma fl_of_int_cases: "(\<exists>f. fl_of_int i = Inr f) \<or> fl_of_int i = Inl OverflowError"
  by (auto simp: fl_of_int_def split: pyfloat.splits)

lemma py_float_cases:
  "py_float v = Some m \<Longrightarrow> (\<exists>f. m = Inr f) \<or> m = Inl OverflowError"
  using fl_of_int_cases by (cases v) auto

lemma py_add_num:
  assumes "is_number a" "is_number b"
  shows "(\<exists>c. py_add a b = Inr c \<and> is_number c) \<or> py_add a b = Inl OverflowError"
proof (cases "\<exists>i j. py_int a = Some i \<and> py_int b = Some j")
  case True
  then show ?thesis by (auto simp: py_add_def is_number_def)
next
  case False
  from assms obtain ma mb where m: "py_float a = Some ma" "py_float b = Some mb"
    by (auto simp: is_number_def)
  with False have "py_add a b = bindE ma (\<lambda>x. bindE mb (\<lambda>y. Inr (JFloat (fadd x y))))"
    by (auto simp: py_add_def split: option.splits)
  with py_float_cases [OF m(1)] py_float_cases [OF m(2)] show ?thesis
    by (auto simp: is_number_def)
qed

lemma py_sum_num:
  "is_number acc \<Longrightarrow> list_all is_number vs \<Longrightarrow>
     (\<exists>t. py_sum acc vs = Inr t \<and> is_number t) \<or> py_sum acc vs = Inl OverflowError"
proof (induction vs arbitrary: acc)
  case Nil
  then show ?case by simp
next
  case (Cons v vs)
  then have v: "is_number v" and vs: "list_all is_number vs" by simp_all
  from py_add_num [OF Cons.prems(1) v] show ?case
  proof
    assume "py_add acc v = Inl OverflowError"
    then show ?thesis by simp
  next
    assume "\<exists>c. py_add acc v = Inr c \<and> is_number c"
    then obtain c where c: "py_add acc v = Inr c" "is_number c" by blast
    from Cons.IH [OF c(2) vs] c(1) show ?thesis by simp
  qed
qed

lemma int_truediv_cases:
  "j \<noteq> 0 \<Longrightarrow> (\<exists>f. int_truediv i j = Inr f) \<or> int_truediv i j = Inl OverflowError"
  by (auto simp: int_truediv_def split: pyfloat.splits)

lemma fdiv_cases: "(\<exists>f. fdiv x y = Inr f) \<or> fdiv x y = Inl ZeroDivisionError"
  by (auto simp: fdiv_def split: option.splits)

lemma py_truediv_count:
  assumes "is_number t" "0 < n"
  shows "(\<exists>avg. py_truediv t (JInt n) = Inr avg) \<or> py_truediv t (JInt n) = Inl OverflowError"
proof (cases "py_int t")
  case (Some i)
  with assms int_truediv_cases [of n i] show ?thesis
    by (auto simp: py_truediv_def)
next
  case None
  from assms obtain m where m: "py_float t = Some m" by (auto simp: is_number_def)
  with None have e: "py_truediv t (JInt n) =
      bindE m (\<lambda>x. bindE (fl_of_int n) (\<lambda>y. bindE (fdiv x y) (\<lambda>f. Inr (JFloat f))))"
    by (simp add: py_truediv_def)
  from py_float_cases [OF m] show ?thesis
  proof
    assume "m = Inl OverflowError"
    with e show ?thesis by simp
  next
    assume "\<exists>f. m = Inr f"
    then obtain x where x: "m = Inr x" by blast
    from fl_of_int_cases [of n] show ?thesis
    proof
      assume "fl_of_int n = Inl OverflowError"
      with e x show ?thesis by simp
    next
      assume "\<exists>f. fl_of_int n = Inr f"
      then obtain y where y: "fl_of_int n = Inr y" by blast
      from fl_of_int_pos [OF assms(2) y] have "fdiv x y \<noteq> Inl ZeroDivisionError"
        by (rule fdiv_not_zde)
      with fdiv_cases [of x y] obtain f where "fdiv x y = Inr f" by blast
      with e x y show ?thesis by simp
    qed
  qed
qed

lemma int_ok_huge: "int_ok (10 ^ 400)"
proof -
  have "(0::int) \<le> 10 ^ 400" by (rule zero_le_power) simp
  then have "\<bar>(10::int) ^ 400\<bar> = 10 ^ 400" by (rule abs_of_nonneg)
  moreover have "(10::int) ^ 400 < 10 ^ 4300"
    by (rule power_strict_increasing) simp_all
  ultimately show ?thesis unfolding int_ok_def by (simp only:)
qed

lemma seed_total: "fl_lit (105997 / 100) = Fin (4661797360374907 / 4398046511104)"
  by code_simp

lemma fifteen: "int_truediv 30 2 = Inr (Fin 15)"
  by code_simp

text \<open>
  Claim C4, amended. GET /analytics/sales never raises ZeroDivisionError, on any orders
  collection. On a collection whose records carry a status and a numeric total: with no
  completed order it answers 200 with total_sales 0, completed_orders 0 and
  average_order_value 0; with completed orders, total_sales is Python's sum of their
  totals and average_order_value is its true quotient by their number (the exact quotient
  rounded to a float), and the request raises OverflowError when an int is too large for
  a float (or ValueError when the answer cannot be serialised), and nothing else.
\<close>

theorem sales_average_guarded:
  "get_sales_analytics s \<noteq> Inl ZeroDivisionError
   \<and> (list_all order_wf (orders s) \<longrightarrow>
        (filter is_completed (orders s) = [] \<longrightarrow>
           get_sales_analytics s =
             Inr (200, JObj [(''total_sales'', JInt 0),
                             (''completed_orders'', JInt 0),
                             (''average_order_value'', JInt 0)]))
      \<and> (filter is_completed (orders s) \<noteq> [] \<longrightarrow>
           get_sales_analytics s =
             bindE (py_sum (JInt 0) (completed_totals (orders s))) (\<lambda>total_sales.
             bindE (py_truediv total_sales
                      (JInt (int (length (filter is_completed (orders s)))))) (\<lambda>average.
               respond 200
                 (JObj [(''total_sales'', total_sales),
                        (''completed_orders'',
                           JInt (int (length (filter is_completed (orders s))))),
                        (''average_order_value'', average)])))
           \<and> (\<forall>ex. get_sales_analytics s = Inl ex \<longrightarrow> ex = OverflowError \<or> ex = ValueError)))"
proof (intro conjI impI allI)
  show "get_sales_analytics s \<noteq> Inl ZeroDivisionError"
    by (rule get_sales_analytics_not_zde)
next
  assume wf: "list_all order_wf (orders s)" and e: "filter is_completed (orders s) = []"
  then have "completed_totals (orders s) = []" by (simp add: completed_totals_def)
  with wf e show "get_sales_analytics s =
             Inr (200, JObj [(''total_sales'', JInt 0),
                             (''completed_orders'', JInt 0),
                             (''average_order_value'', JInt 0)])"
    by (simp add: get_sales_analytics_def sum_completed_py_sum completed_of_filter)
next
  assume wf: "list_all order_wf (orders s)" and ne: "filter is_completed (orders s) \<noteq> []"
  let ?n = "int (length (filter is_completed (orders s)))"
  from ne have n: "0 < ?n" by simp
  from wf n show eq: "get_sales_analytics s =
             bindE (py_sum (JInt 0) (completed_totals (orders s))) (\<lambda>total_sales.
             bindE (py_truediv total_sales (JInt ?n)) (\<lambda>average.
               respond 200
                 (JObj [(''total_sales'', total_sales),
                        (''completed_orders'', JInt ?n),
                        (''average_order_value'', average)])))"
    by (simp add: get_sales_analytics_def sum_completed_py_sum completed_of_filter Let_def)
  fix ex
  assume "get_sales_analytics s = Inl ex"
  with eq have x: "bindE (py_sum (JInt 0) (completed_totals (orders s))) (\<lambda>total_sales.
             bindE (py_truediv total_sales (JInt ?n)) (\<lambda>average.
               respond 200
                 (JObj [(''total_sales'', total_sales),
                        (''completed_orders'', JInt ?n),
                        (''average_order_value'', average)]))) = Inl ex"
    by simp
  have "is_number (JInt 0)" by (simp add: is_number_def)
  from py_sum_num [OF this completed_totals_num [OF wf]]
  show "ex = OverflowError \<or> ex = ValueError"
  proof
    assume "py_sum (JInt 0) (completed_totals (orders s)) = Inl OverflowError"
    with x show ?thesis by simp
  next
    assume "\<exists>t. py_sum (JInt 0) (completed_totals (orders s)) = Inr t \<and> is_number t"
    then obtain t where t: "py_sum (JInt 0) (completed_totals (orders s)) = Inr t" "is_number t"
      by blast
    from py_truediv_count [OF t(2) n] show ?thesis
    proof
      assume "py_truediv t (JInt ?n) = Inl OverflowError"
      with x t show ?thesis by simp
    next
      assume "\<exists>avg. py_truediv t (JInt ?n) = Inr avg"
      then obtain avg where "py_truediv t (JInt ?n) = Inr avg" by blast
      with x t show ?thesis
        by (simp add: respond_def jsonify_def split: if_splits)
    qed
  qed
qed

theorem sales_average_guarded_witness:
  "list_all order_wf (orders (init_state\<lparr>orders := [orders init_state ! 1]\<rparr>))
   \<and> get_sales_analytics (init_state\<lparr>orders := [orders init_state ! 1]\<rparr>) =
       Inr (200, JObj [(''total_sales'', JInt 0), (''completed_orders'', JInt 0),
                       (''average_order_value'', JInt 0)])
   \<and> list_all order_wf (orders two_sales_state)
   \<and> get_sales_analytics two_sales_state =
       Inr (200, JObj [(''total_sales'', JInt 30), (''completed_orders'', JInt 2),
                       (''average_order_value'', JFloat (Fin 15))])
   \<and> list_all order_wf (orders init_state)
   \<and> get_sales_analytics init_state =
       Inr (200, JObj [(''total_sales'', JFloat (Fin (4661797360374907 / 4398046511104))),
                       (''completed_orders'', JInt 1),
                       (''average_order_value'',
                          JFloat (Fin (4661797360374907 / 4398046511104)))])"
proof -
  have a: "list_all order_wf (orders (init_state\<lparr>orders := [orders init_state ! 1]\<rparr>))"
    by (simp add: init_state_def order_wf_def is_number_def)
  have b: "list_all order_wf (orders two_sales_state)"
    by (simp add: two_sales_state_def order_wf_def is_number_def)
  have c: "list_all order_wf (orders init_state)"
    by (simp add: init_state_def order_wf_def is_number_def)
  have t: "get_sales_analytics two_sales_state =
       Inr (200, JObj [(''total_sales'', JInt 30), (''completed_orders'', JInt 2),
                       (''average_order_value'', JFloat (Fin 15))])"
    using fifteen
    by (simp add: get_sales_analytics_def two_sales_state_def subscript_def py_add_def
          py_truediv_def)
  have i: "get_sales_analytics init_state =
       Inr (200, JObj [(''total_sales'', JFloat (Fin (4661797360374907 / 4398046511104))),
                       (''completed_orders'', JInt 1),
                       (''average_order_value'',
                          JFloat (Fin (4661797360374907 / 4398046511104)))])"
    by (simp add: get_sales_analytics_def init_state_def subscript_def py_add_def
          py_truediv_def seed_total fadd_def fdiv_def)
  show ?thesis
    using a b c t i sales_average_guarded [of "init_state\<lparr>orders := [orders init_state ! 1]\<rparr>"]
      sales_average_guarded [of two_sales_state] sales_average_guarded [of init_state]
    by (simp add: init_state_def is_completed_def)
qed

text \<open>As the claim was stated, with total_sales divided by the number of completed
  orders returned whenever there are completed orders, it fails: with one completed order
  of total 10^400 the division raises OverflowError.\<close>

theorem sales_average_overflows:
  "list_all order_wf (orders huge_sale_state)
   \<and> list_all (\<lambda>r. json_ok (JObj r)) (orders huge_sale_state)
   \<and> filter is_completed (orders huge_sale_state) \<noteq> []
   \<and> get_sales_analytics huge_sale_state = Inl OverflowError"
proof -
  have "int_truediv (10 ^ 400) 1 = Inl OverflowError"
    by (simp add: int_truediv_def round_double_def)
  then have "get_sales_analytics huge_sale_state = Inl OverflowError"
    by (simp add: get_sales_analytics_def huge_sale_state_def subscript_def py_add_def
          py_truediv_def)
  then show ?thesis
    using int_ok_huge
    by (simp add: huge_sale_state_def order_wf_def is_number_def is_completed_def
          del: power_strict_increasing_iff)
qed

section \<open>Properties of the provisioner\<close>

subsection \<open>Polling the gateway\<close>

lemma wait_loop_pending_step:
  assumes "pending (gw (calls w))" "clock w - st < mw"
  shows "wait_loop gw lat mw st w =
           wait_loop gw lat mw st (sleep 10 (snd (get_gateway gw lat w)))"
  using assms
  by (subst wait_loop.simps) (auto simp: pending_def get_gateway_def split: poll.splits)

lemma elapsed_same [simp]: "elapsed lat k k = 0"
  by (simp add: elapsed_def)

lemma elapsed_first: "k < n \<Longrightarrow> elapsed lat k n = int (lat k) + 10 + elapsed lat (Suc k) n"
  by (simp add: elapsed_def sum.atLeast_Suc_lessThan)

lemma wait_loop_timeout:
  assumes "\<forall>k. pending (gw k)"
  shows "\<exists>w'. wait_loop gw lat mw st w = (False, w')
           \<and> calls w \<le> calls w'
           \<and> sleeps w' = sleeps w + (calls w' - calls w)
           \<and> clock w' = clock w + elapsed lat (calls w) (calls w')
           \<and> mw \<le> clock w' - st
           \<and> (\<forall>n. calls w \<le> n \<and> n < calls w' \<longrightarrow>
                  clock w + elapsed lat (calls w) n - st < mw)"
  using assms
proof (induction gw lat mw st w rule: wait_loop.induct)
  case (1 gw lat mw st w)
  show ?case
  proof (cases "clock w - st < mw")
    case False
    then show ?thesis
      by (subst wait_loop.simps) simp
  next
    case True
    let ?w2 = "sleep 10 (snd (get_gateway gw lat w))"
    from "1.prems" have p: "pending (gw (calls w))" by simp
    have step: "wait_loop gw lat mw st w = wait_loop gw lat mw st ?w2"
      using p True by (rule wait_loop_pending_step)
    have "\<exists>w'. wait_loop gw lat mw st ?w2 = (False, w')
           \<and> calls ?w2 \<le> calls w'
           \<and> sleeps w' = sleeps ?w2 + (calls w' - calls ?w2)
           \<and> clock w' = clock ?w2 + elapsed lat (calls ?w2) (calls w')
           \<and> mw \<le> clock w' - st
           \<and> (\<forall>n. calls ?w2 \<le> n \<and> n < calls w' \<longrightarrow>
                  clock ?w2 + elapsed lat (calls ?w2) n - st < mw)"
    proof (cases "gw (calls w)")
      case (Status status)
      with p have "status \<noteq> ''READY''" "status \<noteq> ''FAILED''"
        by (auto simp: pending_def)
      with Status True "1.prems" show ?thesis
        by (intro "1.IH"(1) [of "gw (calls w)" "snd (get_gateway gw lat w)" status])
           (simp_all add: get_gateway_def)
    next
      case Raises
      with True "1.prems" show ?thesis
        by (intro "1.IH"(2) [of "gw (calls w)" "snd (get_gateway gw lat w)"])
           (simp_all add: get_gateway_def)
    qed
    then obtain w' where w':
      "wait_loop gw lat mw st ?w2 = (False, w')"
      "calls ?w2 \<le> calls w'"
      "sleeps w' = sleeps ?w2 + (calls w' - calls ?w2)"
      "clock w' = clock ?w2 + elapsed lat (calls ?w2) (calls w')"
      "mw \<le> clock w' - st"
      "\<forall>n. calls ?w2 \<le> n \<and> n < calls w' \<longrightarrow>
                  clock ?w2 + elapsed lat (calls ?w2) n - st < mw"
      by blast
    have c2: "calls ?w2 = Suc (calls w)" "sleeps ?w2 = Suc (sleeps w)"
      "clock ?w2 = clock w + int (lat (calls w)) + 10"
      by (simp_all add: get_gateway_def sleep_def)
    have lt: "calls w < calls w'" using w'(2) c2 by simp
    have "\<forall>n. calls w \<le> n \<and> n < calls w' \<longrightarrow> clock w + elapsed lat (calls w) n - st < mw"
    proof (intro allI impI)
      fix n assume n: "calls w \<le> n \<and> n < calls w'"
      show "clock w + elapsed lat (calls w) n - st < mw"
      proof (cases "n = calls w")
        case True
        with \<open>clock w - st < mw\<close> show ?thesis by simp
      next
        case False
        with n have k: "Suc (calls w) \<le> n" "calls w < n" by simp_all
        with w'(6) n c2 have
          "clock w + int (lat (calls w)) + 10 + elapsed lat (Suc (calls w)) n - st < mw"
          by simp
        with k show ?thesis
          by (simp add: elapsed_first [of "calls w" n])
      qed
    qed
    with w' c2 lt step show ?thesis
      by (simp add: elapsed_first [OF lt])
  qed
qed

lemma wait_loop_ready:
  assumes "gw (calls w) = Status ''READY''" "clock w - st < mw"
  shows "wait_loop gw lat mw st w = (True, snd (get_gateway gw lat w))"
  using assms by (subst wait_loop.simps) (simp add: get_gateway_def)

lemma wait_loop_failed:
  assumes "gw (calls w) = Status ''FAILED''" "clock w - st < mw"
  shows "wait_loop gw lat mw st w = (False, snd (get_gateway gw lat w))"
  using assms by (subst wait_loop.simps) (simp add: get_gateway_def)

lemma wait_loop_expired:
  "\<not> clock w - st < mw \<Longrightarrow> wait_loop gw lat mw st w = (False, w)"
  by (subst wait_loop.simps) simp

lemma polls_creating_creating_ready:
  assumes "gw 0 = Status ''CREATING''" "gw 1 = Status ''CREATING''" "gw 2 = Status ''READY''"
  shows "wait_for_gateway_ready gw lat 300 \<lparr>clock = t0, calls = 0, sleeps = 0\<rparr> =
           (if int (lat 0) + int (lat 1) + 20 < 300
            then (True, \<lparr>clock = t0 + int (lat 0) + int (lat 1) + int (lat 2) + 20,
                        calls = 3, sleeps = 2\<rparr>)
            else if int (lat 0) + 10 < 300
            then (False, \<lparr>clock = t0 + int (lat 0) + int (lat 1) + 20, calls = 2, sleeps = 2\<rparr>)
            else (False, \<lparr>clock = t0 + int (lat 0) + 10, calls = 1, sleeps = 1\<rparr>))"
proof -
  let ?w0 = "\<lparr>clock = t0, calls = 0, sleeps = 0\<rparr>"
  let ?w1 = "\<lparr>clock = t0 + int (lat 0) + 10, calls = 1, sleeps = 1\<rparr>"
  let ?w2 = "\<lparr>clock = t0 + int (lat 0) + int (lat 1) + 20, calls = 2, sleeps = 2\<rparr>"
  have s0: "wait_loop gw lat 300 t0 ?w0 = wait_loop gw lat 300 t0 ?w1"
    using assms
    by (subst wait_loop_pending_step)
       (simp_all add: pending_def get_gateway_def sleep_def numeral_2_eq_2 add_ac)
  show ?thesis
  proof (cases "int (lat 0) + 10 < 300")
    case False
    then have "wait_loop gw lat 300 t0 ?w1 = (False, ?w1)"
      by (intro wait_loop_expired) simp
    with s0 False show ?thesis by (simp add: wait_for_gateway_ready_def)
  next
    case True
    have s1: "wait_loop gw lat 300 t0 ?w1 = wait_loop gw lat 300 t0 ?w2"
      using assms True
      by (subst wait_loop_pending_step)
         (simp_all add: pending_def get_gateway_def sleep_def numeral_2_eq_2 add_ac)
    show ?thesis
    proof (cases "int (lat 0) + int (lat 1) + 20 < 300")
      case False
      then have "wait_loop gw lat 300 t0 ?w2 = (False, ?w2)"
        by (intro wait_loop_expired) simp
      with s0 s1 True False show ?thesis by (simp add: wait_for_gateway_ready_def)
    next
      case ok: True
      have "wait_loop gw lat 300 t0 ?w2 =
              (True, \<lparr>clock = t0 + int (lat 0) + int (lat 1) + int (lat 2) + 20,
                      calls = 3, sleeps = 2\<rparr>)"
        using assms ok
        by (subst wait_loop_ready)
           (simp_all add: get_gateway_def numeral_2_eq_2 numeral_3_eq_3 add_ac)
      with s0 s1 ok show ?thesis by (simp add: wait_for_gateway_ready_def)
    qed
  qed
qed

lemma polls_creating_failed:
  assumes "gw 0 = Status ''CREATING''" "gw 1 = Status ''FAILED''"
  shows "wait_for_gateway_ready gw lat 300 \<lparr>clock = t0, calls = 0, sleeps = 0\<rparr> =
           (False,
            if int (lat 0) + 10 < 300
            then \<lparr>clock = t0 + int (lat 0) + int (lat 1) + 10, calls = 2, sleeps = 1\<rparr>
            else \<lparr>clock = t0 + int (lat 0) + 10, calls = 1, sleeps = 1\<rparr>)"
proof -
  let ?w0 = "\<lparr>clock = t0, calls = 0, sleeps = 0\<rparr>"
  let ?w1 = "\<lparr>clock = t0 + int (lat 0) + 10, calls = 1, sleeps = 1\<rparr>"
  have s0: "wait_loop gw lat 300 t0 ?w0 = wait_loop gw lat 300 t0 ?w1"
    using assms
    by (subst wait_loop_pending_step)
       (simp_all add: pending_def get_gateway_def sleep_def numeral_2_eq_2 add_ac)
  show ?thesis
  proof (cases "int (lat 0) + 10 < 300")
    case False
    then have "wait_loop gw lat 300 t0 ?w1 = (False, ?w1)"
      by (intro wait_loop_expired) simp
    with s0 False show ?thesis by (simp add: wait_for_gateway_ready_def)
  next
    case True
    have "wait_loop gw lat 300 t0 ?w1 =
            (False, \<lparr>clock = t0 + int (lat 0) + int (lat 1) + 10, calls = 2, sleeps = 1\<rparr>)"
      using assms True
      by (subst wait_loop_failed) (simp_all add: get_gateway_def numeral_2_eq_2 add_ac)
    with s0 True show ?thesis by (simp add: wait_for_gateway_ready_def)
  qed
qed

lemma polls_time_out:
  assumes "\<forall>k. pending (gw k)"
  shows "\<exists>w'. wait_for_gateway_ready gw lat 300 \<lparr>clock = t0, calls = 0, sleeps = 0\<rparr> = (False, w')
           \<and> sleeps w' = calls w'
           \<and> clock w' = t0 + elapsed lat 0 (calls w')
           \<and> 300 \<le> clock w' - t0
           \<and> (\<forall>n<calls w'. elapsed lat 0 n < 300)"
  using wait_loop_timeout [OF assms, of lat 300 t0 "\<lparr>clock = t0, calls = 0, sleeps = 0\<rparr>"]
  by (auto simp: wait_for_gateway_ready_def)

text \<open>
  Claim C2, amended. With the default budget of 300 seconds: when the first three polls
  report CREATING, CREATING, READY, wait_for_gateway_ready returns True after exactly
  three calls and two sleeps of 10 seconds provided the third poll starts within the
  budget, and False, timed out, otherwise; when the first two report CREATING, FAILED it
  returns False, after two calls and one sleep or timed out after one; and when no poll
  ever reports READY or FAILED it returns False at the first check of the clock at which
  300 seconds or more have passed, every call having been followed by a sleep. The
  function is total: it returns in each case.
\<close>

theorem wait_for_gateway_ready_polling:
  "(gw 0 = Status ''CREATING'' \<and> gw 1 = Status ''CREATING'' \<and> gw 2 = Status ''READY'' \<longrightarrow>
      wait_for_gateway_ready gw lat 300 \<lparr>clock = t0, calls = 0, sleeps = 0\<rparr> =
        (if int (lat 0) + int (lat 1) + 20 < 300
         then (True, \<lparr>clock = t0 + int (lat 0) + int (lat 1) + int (lat 2) + 20,
                     calls = 3, sleeps = 2\<rparr>)
         else if int (lat 0) + 10 < 300
         then (False, \<lparr>clock = t0 + int (lat 0) + int (lat 1) + 20, calls = 2, sleeps = 2\<rparr>)
         else (False, \<lparr>clock = t0 + int (lat 0) + 10, calls = 1, sleeps = 1\<rparr>)))
   \<and> (gw 0 = Status ''CREATING'' \<and> gw 1 = Status ''FAILED'' \<longrightarrow>
      wait_for_gateway_ready gw lat 300 \<lparr>clock = t0, calls = 0, sleeps = 0\<rparr> =
        (False,
         if int (lat 0) + 10 < 300
         then \<lparr>clock = t0 + int (lat 0) + int (lat 1) + 10, calls = 2, sleeps = 1\<rparr>
         else \<lparr>clock = t0 + int (lat 0) + 10, calls = 1, sleeps = 1\<rparr>))
   \<and> ((\<forall>k. pending (gw k)) \<longrightarrow>
      (\<exists>w'. wait_for_gateway_ready gw lat 300 \<lparr>clock = t0, calls = 0, sleeps = 0\<rparr> = (False, w')
           \<and> sleeps w' = calls w'
           \<and> clock w' = t0 + elapsed lat 0 (calls w')
           \<and> 300 \<le> clock w' - t0
           \<and> (\<forall>n<calls w'. elapsed lat 0 n < 300)))"
  using polls_creating_creating_ready [of gw lat t0] polls_creating_failed [of gw lat t0]
    polls_time_out [of gw lat t0]
  by blast

theorem wait_for_gateway_ready_polling_witness:
  "wait_for_gateway_ready (mock [''CREATING'', ''CREATING'', ''READY'']) (\<lambda>k. 0) 300
      \<lparr>clock = 1000, calls = 0, sleeps = 0\<rparr> = (True, \<lparr>clock = 1020, calls = 3, sleeps = 2\<rparr>)
   \<and> wait_for_gateway_ready (mock [''CREATING'', ''FAILED'']) (\<lambda>k. 0) 300
      \<lparr>clock = 1000, calls = 0, sleeps = 0\<rparr> = (False, \<lparr>clock = 1010, calls = 2, sleeps = 1\<rparr>)
   \<and> wait_for_gateway_ready (mock [''CREATING'', ''FAILED'']) (\<lambda>k. 400) 300
      \<lparr>clock = 1000, calls = 0, sleeps = 0\<rparr> = (False, \<lparr>clock = 1410, calls = 1, sleeps = 1\<rparr>)
   \<and> wait_for_gateway_ready (\<lambda>k. Status ''CREATING'') (\<lambda>k. 0) 300
      \<lparr>clock = 1000, calls = 0, sleeps = 0\<rparr> = (False, \<lparr>clock = 1300, calls = 30, sleeps = 30\<rparr>)"
proof -
  have t: "wait_for_gateway_ready (\<lambda>k. Status ''CREATING'') (\<lambda>k. 0) 300
      \<lparr>clock = 1000, calls = 0, sleeps = 0\<rparr> = (False, \<lparr>clock = 1300, calls = 30, sleeps = 30\<rparr>)"
    by (simp add: wait_for_gateway_ready_def wait_loop.simps get_gateway_def sleep_def)
  show ?thesis
    using wait_for_gateway_ready_polling
            [of "mock [''CREATING'', ''CREATING'', ''READY'']" "\<lambda>k. 0" 1000]
          wait_for_gateway_ready_polling
            [of "mock [''CREATING'', ''FAILED'']" "\<lambda>k. 0" 1000]
          wait_for_gateway_ready_polling
            [of "mock [''CREATING'', ''FAILED'']" "\<lambda>k. 400" 1000]
          wait_for_gateway_ready_polling
            [of "\<lambda>k. Status ''CREATING''" "\<lambda>k. 0" 1000] t
    by (simp add: mock_def)
qed

text \<open>As the claim was stated, for every control plane that reports CREATING, CREATING,
  READY, it fails: when each call takes 150 seconds the budget is spent after the second
  sleep and the function returns False.\<close>

theorem slow_polls_time_out_before_ready:
  "mock [''CREATING'', ''CREATING'', ''READY''] 0 = Status ''CREATING''
   \<and> mock [''CREATING'', ''CREATING'', ''READY''] 1 = Status ''CREATING''
   \<and> mock [''CREATING'', ''CREATING'', ''READY''] 2 = Status ''READY''
   \<and> wait_for_gateway_ready (mock [''CREATING'', ''CREATING'', ''READY'']) (\<lambda>k. 150) 300
        \<lparr>clock = 1000, calls = 0, sleeps = 0\<rparr>
       = (False, \<lparr>clock = 1320, calls = 2, sleeps = 2\<rparr>)"
  by (simp add: mock_def wait_for_gateway_ready_def wait_loop.simps get_gateway_def sleep_def)

text \<open>
  Claim C10. When every call of get_gateway raises, wait_for_gateway_ready raises
  nothing: it returns False. Each of its calls (there is at least one) is followed by a
  sleep of 10 seconds and a new check of the clock, and it returns at the first check at
  which 300 seconds or more have passed.
\<close>

theorem polling_exceptions_are_caught:
  "(\<forall>k. gw k = Raises) \<longrightarrow>
     (\<exists>w'. wait_for_gateway_ready gw lat 300 \<lparr>clock = t0, calls = 0, sleeps = 0\<rparr> = (False, w')
          \<and> sleeps w' = calls w'
          \<and> 0 < calls w'
          \<and> clock w' = t0 + elapsed lat 0 (calls w')
          \<and> 300 \<le> clock w' - t0
          \<and> (\<forall>n<calls w'. elapsed lat 0 n < 300))"
proof
  assume a: "\<forall>k. gw k = Raises"
  then have "\<forall>k. pending (gw k)" by (simp add: pending_def)
  from polls_time_out [OF this, of lat t0] obtain w' where w':
    "wait_for_gateway_ready gw lat 300 \<lparr>clock = t0, calls = 0, sleeps = 0\<rparr> = (False, w')"
    "sleeps w' = calls w'" "clock w' = t0 + elapsed lat 0 (calls w')"
    "300 \<le> clock w' - t0" "\<forall>n<calls w'. elapsed lat 0 n < 300"
    by blast
  have "0 < calls w'"
  proof (rule ccontr)
    assume "\<not> 0 < calls w'"
    with w'(3,4) show False by simp
  qed
  with w' show "\<exists>w'. wait_for_gateway_ready gw lat 300 \<lparr>clock = t0, calls = 0, sleeps = 0\<rparr> = (False, w')
          \<and> sleeps w' = calls w'
          \<and> 0 < calls w'
          \<and> clock w' = t0 + elapsed lat 0 (calls w')
          \<and> 300 \<le> clock w' - t0
          \<and> (\<forall>n<calls w'. elapsed lat 0 n < 300)"
    by blast
qed

theorem polling_exceptions_are_caught_witness:
  "wait_for_gateway_ready (\<lambda>k. Raises) (\<lambda>k. 3) 300 \<lparr>clock = 0, calls = 0, sleeps = 0\<rparr>
     = (False, \<lparr>clock = 312, calls = 24, sleeps = 24\<rparr>)"
proof -
  have t: "wait_for_gateway_ready (\<lambda>k. Raises) (\<lambda>k. 3) 300 \<lparr>clock = 0, calls = 0, sleeps = 0\<rparr>
     = (False, \<lparr>clock = 312, calls = 24, sleeps = 24\<rparr>)"
    by (simp add: wait_for_gateway_ready_def wait_loop.simps get_gateway_def sleep_def)
  show ?thesis
    using polling_exceptions_are_caught [of "\<lambda>k. Raises" "\<lambda>k. 3" 0] t
    by simp
qed

subsection \<open>The service role\<close>

text \<open>
  Claim C3, amended. In every execution of get_or_create_service_role that returns and
  in which create_policy was called and raised EntityAlreadyExists, the policy ARN passed
  to attach_role_policy (the last call made) is
  arn:aws:iam::<account>:policy/AgentCoreGatewayPolicy-<unique_suffix>, built from the
  caller's account id and the policy name, and the ARN returned is the one of the role
  that create_role returned.
\<close>

theorem existing_policy_arn_reconstructed:
  assumes "get_or_create_service_role aws unique_suffix = (tr, Inr arn)"
    and "CreatePolicy (''AgentCoreGatewayPolicy-'' @ unique_suffix) \<in> set tr"
    and "create_policy aws (''AgentCoreGatewayPolicy-'' @ unique_suffix)
           = Inl EntityAlreadyExistsException"
  shows "\<exists>account_id.
           get_caller_identity aws = Inr account_id
         \<and> create_role aws (''AmazonBedrockAgentCoreGatewayServiceRole-'' @ unique_suffix) = Inr arn
         \<and> last tr = AttachRolePolicy (''AmazonBedrockAgentCoreGatewayServiceRole-'' @ unique_suffix)
                        (''arn:aws:iam::'' @ account_id @ '':policy/AgentCoreGatewayPolicy-''
                           @ unique_suffix)"
  using assms
  by (auto simp: get_or_create_service_role_def attach_and_return_def Let_def
           split: sum.splits aws_error.splits)

theorem existing_policy_arn_reconstructed_witness:
  "get_or_create_service_role demo_aws ''k3x9q2ab'' =
     ([GetRole ''AmazonBedrockAgentCoreGatewayServiceRole-k3x9q2ab'',
       CreateRole ''AmazonBedrockAgentCoreGatewayServiceRole-k3x9q2ab'',
       CreatePolicy ''AgentCoreGatewayPolicy-k3x9q2ab'',
       GetCallerIdentity,
       AttachRolePolicy ''AmazonBedrockAgentCoreGatewayServiceRole-k3x9q2ab''
         ''arn:aws:iam::123456789012:policy/AgentCoreGatewayPolicy-k3x9q2ab''],
      Inr ''arn:aws:iam::123456789012:role/AmazonBedrockAgentCoreGatewayServiceRole-k3x9q2ab'')
   \<and> create_policy demo_aws (''AgentCoreGatewayPolicy-'' @ ''k3x9q2ab'')
       = Inl EntityAlreadyExistsException
   \<and> get_caller_identity demo_aws = Inr ''123456789012''"
proof -
  have r: "get_or_create_service_role demo_aws ''k3x9q2ab'' =
     ([GetRole ''AmazonBedrockAgentCoreGatewayServiceRole-k3x9q2ab'',
       CreateRole ''AmazonBedrockAgentCoreGatewayServiceRole-k3x9q2ab'',
       CreatePolicy ''AgentCoreGatewayPolicy-k3x9q2ab'',
       GetCallerIdentity,
       AttachRolePolicy ''AmazonBedrockAgentCoreGatewayServiceRole-k3x9q2ab''
         ''arn:aws:iam::123456789012:policy/AgentCoreGatewayPolicy-k3x9q2ab''],
      Inr ''arn:aws:iam::123456789012:role/AmazonBedrockAgentCoreGatewayServiceRole-k3x9q2ab'')"
    by (simp add: get_or_create_service_role_def demo_aws_def attach_and_return_def Let_def)
  have c: "create_policy demo_aws (''AgentCoreGatewayPolicy-'' @ ''k3x9q2ab'')
       = Inl EntityAlreadyExistsException"
    by (simp add: demo_aws_def)
  from existing_policy_arn_reconstructed [OF r _ c] r c show ?thesis
    by (simp add: demo_aws_def)
qed

text \<open>As the claim was stated, with the returned role ARN equal to the policy ARN, it fails:
  in the sample account the function returns the ARN of the role it created.\<close>

theorem returned_arn_is_not_policy_arn:
  "create_policy demo_aws ''AgentCoreGatewayPolicy-k3x9q2ab'' = Inl EntityAlreadyExistsException
   \<and> CreatePolicy ''AgentCoreGatewayPolicy-k3x9q2ab''
       \<in> set (fst (get_or_create_service_role demo_aws ''k3x9q2ab''))
   \<and> snd (get_or_create_service_role demo_aws ''k3x9q2ab'') =
       Inr ''arn:aws:iam::123456789012:role/AmazonBedrockAgentCoreGatewayServiceRole-k3x9q2ab''
   \<and> snd (get_or_create_service_role demo_aws ''k3x9q2ab'') \<noteq>
       Inr ''arn:aws:iam::123456789012:policy/AgentCoreGatewayPolicy-k3x9q2ab''"
  by (simp add: get_or_create_service_role_def demo_aws_def attach_and_return_def Let_def)

end
